theory Spec2Isabelle
  imports Main
begin

section \<open>Values, text and rows\<close>

text \<open>
  The rows the application reads and writes are Python dictionaries from column names to
  loosely typed values. A value is \<open>None\<close>, a boolean, an integer or a piece of text.
  Text is a \<open>string\<close> and is taken to be ASCII: a \<open>char\<close> beyond code 127 is an
  ordinary symbol, neither a space, a digit nor a letter.
\<close>

datatype pyval = PNone | PBool bool | PInt int | PStr string

type_synonym row = "string \<rightharpoonup> pyval"

text \<open>Python's truth value of an object (\<open>if x\<close>, \<open>not x\<close>, \<open>x or y\<close>).\<close>

fun truthy :: "pyval \<Rightarrow> bool" where
  "truthy PNone = False"
| "truthy (PBool b) = b"
| "truthy (PInt i) = (i \<noteq> 0)"
| "truthy (PStr s) = (s \<noteq> [])"

definition digit_char :: "nat \<Rightarrow> char" where
  "digit_char n = ''0123456789'' ! n"

fun str_nat :: "nat \<Rightarrow> string" where
  "str_nat n = (if n < 10 then [digit_char n] else str_nat (n div 10) @ [digit_char (n mod 10)])"

declare str_nat.simps [simp del]

definition str_int :: "int \<Rightarrow> string" where
  "str_int i = (if i < 0 then CHR ''-'' # str_nat (nat (- i)) else str_nat (nat i))"

text \<open>Python's \<open>str(x)\<close>.\<close>

fun py_str :: "pyval \<Rightarrow> string" where
  "py_str PNone = ''None''"
| "py_str (PBool b) = (if b then ''True'' else ''False'')"
| "py_str (PInt i) = str_int i"
| "py_str (PStr s) = s"

text \<open>The name of the Python type, as it appears in the message of an \<open>AttributeError\<close>.\<close>

fun type_name :: "pyval \<Rightarrow> string" where
  "type_name PNone = ''NoneType''"
| "type_name (PBool b) = ''bool''"
| "type_name (PInt i) = ''int''"
| "type_name (PStr s) = ''str''"

text \<open>
  \<open>str.isspace\<close> on ASCII: tab to carriage return, the four separators 28 to 31 and
  the space.
\<close>

definition py_isspace :: "char \<Rightarrow> bool" where
  "py_isspace c = (of_char c \<in> {9, 10, 11, 12, 13, 28, 29, 30, 31, 32 :: nat})"

text \<open>\<open>s.strip()\<close>: whitespace removed at both ends.\<close>

definition strip :: "string \<Rightarrow> string" where
  "strip s = rev (dropWhile py_isspace (rev (dropWhile py_isspace s)))"

text \<open>\<open>s.upper()\<close> and \<open>s.lower()\<close> act on the ASCII letters.\<close>

definition upper_char :: "char \<Rightarrow> char" where
  "upper_char c = (let n = of_char c :: nat in if 97 \<le> n \<and> n \<le> 122 then char_of (n - 32) else c)"

definition lower_char :: "char \<Rightarrow> char" where
  "lower_char c = (let n = of_char c :: nat in if 65 \<le> n \<and> n \<le> 90 then char_of (n + 32) else c)"

definition upper :: "string \<Rightarrow> string" where
  "upper s = map upper_char s"

definition lower :: "string \<Rightarrow> string" where
  "lower s = map lower_char s"

text \<open>\<open>c.isdigit()\<close> on one character, and \<open>s.isdigit()\<close>: all digits and at least one.\<close>

definition py_isdigit :: "char \<Rightarrow> bool" where
  "py_isdigit c = (let n = of_char c :: nat in 48 \<le> n \<and> n \<le> 57)"

definition isdigit :: "string \<Rightarrow> bool" where
  "isdigit s = (s \<noteq> [] \<and> list_all py_isdigit s)"

text \<open>\<open>s.startswith(p)\<close> and the substring test \<open>sub in s\<close>.\<close>

fun startswith :: "string \<Rightarrow> string \<Rightarrow> bool" where
  "startswith s [] = True"
| "startswith [] (p # ps) = False"
| "startswith (c # cs) (p # ps) = (c = p \<and> startswith cs ps)"

fun contains :: "string \<Rightarrow> string \<Rightarrow> bool" where
  "contains [] sub = (sub = [])"
| "contains (c # cs) sub = (startswith (c # cs) sub \<or> contains cs sub)"

text \<open>\<open>int(s)\<close> on a text of decimal digits.\<close>

definition int_of_digits :: "string \<Rightarrow> nat" where
  "int_of_digits s = foldl (\<lambda>a c. 10 * a + (of_char c - 48)) 0 s"

text \<open>The format \<open>{n:05d}\<close> of a number that is not negative: zeros on the left up to five characters.\<close>

definition format_05d :: "nat \<Rightarrow> string" where
  "format_05d n = replicate (5 - length (str_nat n)) (CHR ''0'') @ str_nat n"

text \<open>\<open>x or y\<close> on values.\<close>

definition py_or :: "pyval \<Rightarrow> pyval \<Rightarrow> pyval" where
  "py_or x y = (if truthy x then x else y)"

text \<open>\<open>row.get(key)\<close> and \<open>row.get(key, default)\<close>.\<close>

definition get :: "row \<Rightarrow> string \<Rightarrow> pyval" where
  "get r k = (case r k of None \<Rightarrow> PNone | Some v \<Rightarrow> v)"

definition get_default :: "row \<Rightarrow> string \<Rightarrow> pyval \<Rightarrow> pyval" where
  "get_default r k d = (case r k of None \<Rightarrow> d | Some v \<Rightarrow> v)"

text \<open>
  \<open>(x or '').strip()\<close>: a false value is replaced by the empty text; \<open>strip\<close> exists on
  text only, so any other true value raises \<open>AttributeError\<close> (\<open>Inl\<close> carries the
  message of the exception).
\<close>

definition or_empty_strip :: "pyval \<Rightarrow> string + string" where
  "or_empty_strip v =
     (if \<not> truthy v then Inr (strip [])
      else case v of
        PStr s \<Rightarrow> Inr (strip s)
      | _ \<Rightarrow> Inl ([CHR 0x27] @ type_name v @ [CHR 0x27] @ '' object has no attribute '' @ [CHR 0x27] @ ''strip'' @ [CHR 0x27]))"

section \<open>The data store\<close>

text \<open>
  The data store is the external collaborator behind the module-level \<open>supabase\<close> client:
  named tables of rows, with filtered select, insert, update and delete. Rows of a table are
  kept in the order of their creation. Every request to the store may fail; the failures
  that the collaborator will produce are given in advance as a script, one entry per
  request (\<open>Some msg\<close>: the request raises an exception whose text is \<open>msg\<close>; \<open>None\<close>,
  or an exhausted script: the request is carried out). The flag \<open>configured\<close> is false
  when the client is \<open>None\<close>; a request through such a client raises \<open>AttributeError\<close>.
\<close>

record store =
  configured :: bool
  tables :: "string \<Rightarrow> row list"
  faults :: "string option list"

definition none_client_error :: string where
  "none_client_error = [CHR 0x27] @ ''NoneType'' @ [CHR 0x27] @ '' object has no attribute '' @ [CHR 0x27] @ ''table'' @ [CHR 0x27]"

text \<open>One request: the exception it raises, if any, and the store with the script advanced.\<close>

definition execute :: "store \<Rightarrow> string option \<times> store" where
  "execute s =
     (if \<not> configured s then (Some none_client_error, s)
      else case faults s of
        [] \<Rightarrow> (None, s)
      | f # fs \<Rightarrow> (f, s\<lparr>faults := fs\<rparr>))"

text \<open>
  The filter \<open>.eq(column, value)\<close>: the column is not null and its value, as text, is the
  text of the given value.
\<close>

definition col_eq :: "string \<Rightarrow> pyval \<Rightarrow> row \<Rightarrow> bool" where
  "col_eq c v r = (case r c of None \<Rightarrow> False | Some x \<Rightarrow> x \<noteq> PNone \<and> py_str x = py_str v)"

text \<open>\<open>.select(columns)\<close>: each named column is present in the result, null when the row has no value.\<close>

definition project :: "string list \<Rightarrow> row \<Rightarrow> row" where
  "project cols r = (\<lambda>k. if k \<in> set cols then Some (get r k) else None)"

datatype columns = All_columns | Columns "string list"

fun select_columns :: "columns \<Rightarrow> row \<Rightarrow> row" where
  "select_columns All_columns r = r"
| "select_columns (Columns cols) r = project cols r"

fun limit_rows :: "nat option \<Rightarrow> row list \<Rightarrow> row list" where
  "limit_rows None rows = rows"
| "limit_rows (Some n) rows = take n rows"

text \<open>
  \<open>.select(columns)\<close>, with an optional filter \<open>.eq(column, value)\<close> and an optional
  \<open>.limit(n)\<close>.
\<close>

definition select :: "string \<Rightarrow> columns \<Rightarrow> (string \<times> pyval) option \<Rightarrow> nat option \<Rightarrow> store \<Rightarrow> (string + row list) \<times> store" where
  "select t cols flt lim s =
     (case execute s of
        (Some e, s') \<Rightarrow> (Inl e, s')
      | (None, s') \<Rightarrow>
          (Inr (limit_rows lim (map (select_columns cols)
                 (case flt of None \<Rightarrow> tables s' t | Some (c, v) \<Rightarrow> filter (col_eq c v) (tables s' t)))), s'))"

text \<open>
  \<open>.select(columns).order(column, desc=True).limit(n)\<close> on a creation time: rows are
  kept in the order of their creation, so the most recent ones are the last ones.
\<close>

definition select_latest :: "string \<Rightarrow> columns \<Rightarrow> nat \<Rightarrow> store \<Rightarrow> (string + row list) \<times> store" where
  "select_latest t cols n s =
     (case execute s of
        (Some e, s') \<Rightarrow> (Inl e, s')
      | (None, s') \<Rightarrow> (Inr (take n (map (select_columns cols) (rev (tables s' t)))), s'))"

text \<open>\<open>.insert(row)\<close>: the row is added at the end of the table and returned.\<close>

definition insert_row :: "string \<Rightarrow> row \<Rightarrow> store \<Rightarrow> (string + row list) \<times> store" where
  "insert_row t r s =
     (case execute s of
        (Some e, s') \<Rightarrow> (Inl e, s')
      | (None, s') \<Rightarrow> (Inr [r], s'\<lparr>tables := (tables s')(t := tables s' t @ [r])\<rparr>))"

text \<open>\<open>.update(values).eq(column, value)\<close>: the matching rows take the given values and are returned.\<close>

definition update_eq :: "string \<Rightarrow> row \<Rightarrow> string \<Rightarrow> pyval \<Rightarrow> store \<Rightarrow> (string + row list) \<times> store" where
  "update_eq t u c v s =
     (case execute s of
        (Some e, s') \<Rightarrow> (Inl e, s')
      | (None, s') \<Rightarrow>
          (Inr (map (\<lambda>r. r ++ u) (filter (col_eq c v) (tables s' t))),
           s'\<lparr>tables := (tables s')(t := map (\<lambda>r. if col_eq c v r then r ++ u else r) (tables s' t))\<rparr>))"

text \<open>\<open>.delete().eq(column, value)\<close>: the matching rows are removed and returned.\<close>

definition delete_eq :: "string \<Rightarrow> string \<Rightarrow> pyval \<Rightarrow> store \<Rightarrow> (string + row list) \<times> store" where
  "delete_eq t c v s =
     (case execute s of
        (Some e, s') \<Rightarrow> (Inl e, s')
      | (None, s') \<Rightarrow>
          (Inr (filter (col_eq c v) (tables s' t)),
           s'\<lparr>tables := (tables s')(t := filter (\<lambda>r. \<not> col_eq c v r) (tables s' t))\<rparr>))"

section \<open>The clock\<close>

text \<open>
  One reading of the clock serves a whole request: \<open>iso_ph\<close> is
  \<open>get_philippines_time().isoformat()\<close>, \<open>compact_ph\<close> is its
  \<open>strftime('%Y%m%d%H%M%S')\<close>, \<open>iso_local\<close> is \<open>datetime.now().isoformat()\<close> and
  \<open>iso_utc\<close> is \<open>datetime.now(timezone.utc).isoformat()\<close>.
\<close>

record clock =
  iso_ph :: string
  compact_ph :: string
  iso_local :: string
  iso_utc :: string

section \<open>Logging\<close>

text \<open>
  \<open>log_admin_activity\<close> and \<open>log_incident_change\<close> catch every exception of the
  insert: the first returns the result or \<open>None\<close>, the second \<open>True\<close> or \<open>False\<close>.
\<close>

definition log_admin_activity :: "clock \<Rightarrow> pyval \<Rightarrow> pyval \<Rightarrow> string \<Rightarrow> pyval \<Rightarrow> pyval \<Rightarrow> pyval \<Rightarrow> store \<Rightarrow> row list option \<times> store" where
  "log_admin_activity clk admin_id admin_name action_type incident_id old_status new_status s =
     (case insert_row ''admin_activity_logs''
             [''admin_id'' \<mapsto> admin_id,
              ''admin_name'' \<mapsto> admin_name,
              ''action_type'' \<mapsto> PStr action_type,
              ''incident_id'' \<mapsto> incident_id,
              ''old_status'' \<mapsto> old_status,
              ''new_status'' \<mapsto> new_status,
              ''action_timestamp'' \<mapsto> PStr (iso_local clk)] s of
        (Inl e, s') \<Rightarrow> (None, s')
      | (Inr result, s') \<Rightarrow> (Some result, s'))"

definition log_incident_change :: "pyval \<Rightarrow> string \<Rightarrow> pyval \<Rightarrow> pyval \<Rightarrow> pyval \<Rightarrow> pyval \<Rightarrow> store \<Rightarrow> bool \<times> store" where
  "log_incident_change incident_id action_type old_status new_status admin_id reason s =
     (case insert_row ''incident_audit_trail''
             [''icd_id'' \<mapsto> incident_id,
              ''action_type'' \<mapsto> PStr action_type,
              ''old_status'' \<mapsto> old_status,
              ''new_status'' \<mapsto> new_status,
              ''changed_by'' \<mapsto> admin_id,
              ''change_reason'' \<mapsto> reason] s of
        (Inl e, s') \<Rightarrow> (False, s')
      | (Inr result, s') \<Rightarrow> (True, s'))"

section \<open>Resolution reports\<close>

text \<open>
  The table of the resolution reports; the environment variable
  \<open>RESOLUTION_REPORTS_TABLE\<close> is taken to be unset.
\<close>

definition RESOLUTION_REPORTS_TABLE :: string where
  "RESOLUTION_REPORTS_TABLE = ''incident_resolution_reports''"

definition generate_resolution_id :: "store \<Rightarrow> string \<times> store" where
  "generate_resolution_id s =
     (let prefix = ''RSV''; default_number = 1 in
      if \<not> configured s then (prefix @ format_05d default_number, s)
      else case select_latest RESOLUTION_REPORTS_TABLE (Columns [''resolved_id'', ''created_at'']) 1 s of
        (Inl e, s') \<Rightarrow> (prefix @ format_05d default_number, s')
      | (Inr data, s') \<Rightarrow>
          (let last_id = (case data of [] \<Rightarrow> PNone | last_record # _ \<Rightarrow> get last_record ''resolved_id'');
               next_number =
                 (case last_id of
                    PStr sid \<Rightarrow>
                      if sid \<noteq> [] \<and> startswith (upper sid) prefix
                      then (let numeric_part = filter py_isdigit (drop (length prefix) (upper sid))
                            in if numeric_part \<noteq> [] then int_of_digits numeric_part + 1 else default_number)
                      else default_number
                  | _ \<Rightarrow> default_number)
           in (prefix @ format_05d next_number, s')))"

text \<open>\<open>format_incident_label\<close>: the display code of an incident.\<close>

definition format_incident_label :: "pyval \<Rightarrow> string" where
  "format_incident_label incident_id =
     (if incident_id = PNone then ''Incident''
      else let incident_str = strip (py_str incident_id) in
        if incident_str = [] then ''Incident''
        else if startswith (upper incident_str) ''ICD'' then upper incident_str
        else if isdigit incident_str then ''ICD_9100'' @ incident_str
        else ''ICD_'' @ incident_str)"

text \<open>
  \<open>get_incident_details\<close>: the incident with the details of its student and of its
  admin, which the source stores under two more keys of the incident; \<open>None\<close> when the
  incident is not found or a lookup raises.
\<close>

record incident_details =
  incident_row :: row
  student_details :: "row option"
  admin_details :: "row option"

definition first_row :: "row list \<Rightarrow> row option" where
  "first_row rows = (case rows of [] \<Rightarrow> None | r # _ \<Rightarrow> Some r)"

definition get_incident_details :: "pyval \<Rightarrow> store \<Rightarrow> incident_details option \<times> store" where
  "get_incident_details incident_id s =
     (case select ''alert_incidents'' All_columns (Some (''icd_id'', incident_id)) None s of
        (Inl e, s1) \<Rightarrow> (None, s1)
      | (Inr [], s1) \<Rightarrow> (None, s1)
      | (Inr (incident # _), s1) \<Rightarrow>
          (case (if truthy (get incident ''user_id'')
                 then (case select ''accounts_student'' All_columns (Some (''user_id'', get incident ''user_id'')) None s1 of
                         (Inl e, s2) \<Rightarrow> (Inl e, s2)
                       | (Inr student_result, s2) \<Rightarrow> (Inr (first_row student_result), s2))
                 else (Inr None, s1)) of
             (Inl e, s2) \<Rightarrow> (None, s2)
           | (Inr student, s2) \<Rightarrow>
               (case (if truthy (get incident ''admin_id'')
                      then (case select ''accounts_admin'' All_columns (Some (''admin_id'', get incident ''admin_id'')) None s2 of
                              (Inl e, s3) \<Rightarrow> (Inl e, s3)
                            | (Inr admin_result, s3) \<Rightarrow> (Inr (first_row admin_result), s3))
                      else (Inr None, s2)) of
                  (Inl e, s3) \<Rightarrow> (None, s3)
                | (Inr admin, s3) \<Rightarrow>
                    (Some \<lparr>incident_row = incident, student_details = student, admin_details = admin\<rparr>, s3))))"

text \<open>
  \<open>create_incident_resolution_report\<close>. The values that the source derives from the
  incident's timestamps and description (parsed dates, the response time as a floating
  point number, their display texts, the key points and metrics, the shortened
  description) are not computed here: the parameter \<open>assemble\<close> supplies them for the
  incident, as the columns \<open>timing\<close> of the report, the entries \<open>display\<close> of the
  summary and the text \<open>truncated_description\<close>, or raises (\<open>Inl\<close>). The result is
  the pair \<open>(summary_payload, storage_error)\<close>, or the exception that left the function.
\<close>

record assembled =
  timing :: row
  display :: row
  truncated_description :: string

definition duplicate_error :: "string \<Rightarrow> bool" where
  "duplicate_error storage_error =
     (contains (lower storage_error) ''duplicate key value violates unique constraint''
      \<or> contains (lower storage_error) ''resolved_id'')"

text \<open>
  The last \<open>try\<close> block of \<open>create_incident_resolution_report\<close>: the insert of the
  report, with its handlers. The result is the summary and the storage error.
\<close>

definition store_report :: "row \<Rightarrow> row \<Rightarrow> store \<Rightarrow> (row \<times> string option) \<times> store" where
  "store_report report_record summary_payload s =
     (case insert_row RESOLUTION_REPORTS_TABLE report_record s of
        (Inr _, s1) \<Rightarrow> ((summary_payload(''stored'' \<mapsto> PBool True), None), s1)
      | (Inl storage_error, s1) \<Rightarrow>
          if duplicate_error storage_error
          then (let (resolved_id_retry, s2) = generate_resolution_id s1
                in case insert_row RESOLUTION_REPORTS_TABLE
                          (report_record(''resolved_id'' \<mapsto> PStr resolved_id_retry)) s2 of
                     (Inr _, s3) \<Rightarrow>
                       ((summary_payload(''resolved_id'' \<mapsto> PStr resolved_id_retry,
                                         ''stored'' \<mapsto> PBool True), None), s3)
                   | (Inl retry_exc, s3) \<Rightarrow>
                       ((summary_payload(''resolved_id'' \<mapsto> PStr resolved_id_retry), Some retry_exc), s3))
          else ((summary_payload, Some storage_error), s1))"

definition create_incident_resolution_report ::
  "(incident_details \<Rightarrow> string + assembled) \<Rightarrow> clock \<Rightarrow> pyval \<Rightarrow> pyval \<Rightarrow> pyval \<Rightarrow> pyval \<Rightarrow> pyval \<Rightarrow> store
     \<Rightarrow> (string + (row option \<times> string option)) \<times> store" where
  "create_incident_resolution_report assemble clk incident_id admin_id admin_name0 previous_status summary_text0 s =
     (if \<not> configured s then (Inr (None, Some ''Supabase client is not configured.''), s)
      else case get_incident_details incident_id s of
        (None, s1) \<Rightarrow> (Inr (None, Some ''Incident details could not be retrieved.''), s1)
      | (Some details, s1) \<Rightarrow>
          (case assemble details of
             Inl e \<Rightarrow> (Inl e, s1)
           | Inr a \<Rightarrow>
          (case or_empty_strip summary_text0 of
             Inl e \<Rightarrow> (Inl e, s1)
           | Inr summary_text \<Rightarrow>
          (let incident = incident_row details;
               admin_name = py_or admin_name0 (PStr ''Administrator'');
               sd = (case student_details details of None \<Rightarrow> Map.empty | Some r \<Rightarrow> r);
               student_name = py_or (get sd ''full_name'') (py_or (get sd ''student_name'')
                                (py_or (get incident ''student_name'') (PStr ''N/A'')));
               category = py_or (get incident ''icd_category'') (PStr ''Uncategorized'');
               incident_label = format_incident_label incident_id;
               summary_headline = incident_label @ '' resolved by '' @ py_str admin_name;
               incident_id_str = (if incident_id \<noteq> PNone then PStr (strip (py_str incident_id)) else PNone);
               (resolved_id, s2) = generate_resolution_id s1;
               report_record = timing a ++
                 [''resolved_id'' \<mapsto> PStr resolved_id,
                  ''icd_id'' \<mapsto> incident_id_str,
                  ''incident_label'' \<mapsto> PStr incident_label,
                  ''student_id'' \<mapsto> get incident ''user_id'',
                  ''student_name'' \<mapsto> student_name,
                  ''resolved_by'' \<mapsto> (if admin_id \<noteq> PNone then PStr (py_str admin_id) else PNone),
                  ''resolved_by_name'' \<mapsto> admin_name,
                  ''summary_headline'' \<mapsto> PStr summary_headline,
                  ''category'' \<mapsto> category,
                  ''status_before'' \<mapsto> previous_status,
                  ''status_after'' \<mapsto> PStr ''Resolved'',
                  ''summary_notes'' \<mapsto> PStr (if summary_text \<noteq> [] then summary_text else truncated_description a),
                  ''created_at'' \<mapsto> PStr (iso_ph clk)];
               summary_payload = display a ++
                 [''resolved_id'' \<mapsto> PStr resolved_id,
                  ''icd_id'' \<mapsto> incident_id_str,
                  ''incident_label'' \<mapsto> PStr incident_label,
                  ''headline'' \<mapsto> PStr summary_headline,
                  ''student_name'' \<mapsto> student_name,
                  ''category'' \<mapsto> category,
                  ''summary_text'' \<mapsto> PStr summary_text,
                  ''stored'' \<mapsto> PBool False]
           in case store_report report_record summary_payload s2 of
                ((payload, storage_error), s3) \<Rightarrow> (Inr (Some payload, storage_error), s3)))))"

section \<open>Permission helpers\<close>

text \<open>
  \<open>can_admin_edit_incident\<close>: the pair of the decision and its reason, and the store
  after the lookup. An exception of the lookup is caught and reported as a denial.
\<close>

definition can_admin_edit_incident :: "pyval \<Rightarrow> pyval \<Rightarrow> store \<Rightarrow> (bool \<times> string) \<times> store" where
  "can_admin_edit_incident incident_id admin_id s =
     (case select ''alert_incidents'' (Columns [''icd_status'', ''assigned_responder_id'']) (Some (''icd_id'', incident_id)) None s of
        (Inl e, s') \<Rightarrow> ((False, ''Error checking permissions: '' @ e), s')
      | (Inr [], s') \<Rightarrow> ((False, ''Incident not found''), s')
      | (Inr (incident # _), s') \<Rightarrow>
          (let status = get_default incident ''icd_status'' (PStr []);
               assigned_responder_id = get incident ''assigned_responder_id''
           in if status \<in> set [PStr ''Resolved'', PStr ''Cancelled'']
              then ((False, ''Incident is '' @ py_str status @ '' and cannot be modified''), s')
              else if \<not> truthy assigned_responder_id
              then ((True, ''No responder assigned - available for assignment''), s')
              else if py_str assigned_responder_id = py_str admin_id
              then ((True, ''You are the assigned responder''), s')
              else ((False, ''Incident is assigned to another responder (ID: '' @ py_str assigned_responder_id @ '')''), s')))"

definition can_admin_view_incident :: "pyval \<Rightarrow> pyval \<Rightarrow> store \<Rightarrow> (bool \<times> string) \<times> store" where
  "can_admin_view_incident incident_id admin_id s =
     (case select ''alert_incidents'' (Columns [''icd_status'', ''assigned_responder_id'']) (Some (''icd_id'', incident_id)) None s of
        (Inl e, s') \<Rightarrow> ((False, ''Error checking permissions: '' @ e), s')
      | (Inr [], s') \<Rightarrow> ((False, ''Incident not found''), s')
      | (Inr (incident # _), s') \<Rightarrow>
          (case or_empty_strip (get incident ''icd_status'') of
             Inl e \<Rightarrow> ((False, ''Error checking permissions: '' @ e), s')
           | Inr status \<Rightarrow>
               (let assigned_responder_id = get incident ''assigned_responder_id''
                in if status \<in> set [''Active'', ''Pending'']
                      \<and> truthy assigned_responder_id \<and> py_str assigned_responder_id \<noteq> py_str admin_id
                   then ((False, ''This incident is assigned to another responder''), s')
                   else ((True, ''Incident is viewable''), s'))))"

text \<open>
  \<open>filter_incidents_for_admin\<close>: the loop over the incidents, with the list built so far.
  There is no exception handler in the function: an exception of \<open>strip\<close> leaves it.
\<close>

fun filter_loop :: "string \<Rightarrow> row list \<Rightarrow> row list \<Rightarrow> string + row list" where
  "filter_loop admin_id_str [] filtered = Inr filtered"
| "filter_loop admin_id_str (incident # incidents) filtered =
     (case or_empty_strip (get incident ''icd_status'') of
        Inl e \<Rightarrow> Inl e
      | Inr status \<Rightarrow>
          (let assigned_responder_id = get incident ''assigned_responder_id''
           in if status \<in> set [''Active'', ''Pending'']
                 \<and> truthy assigned_responder_id \<and> py_str assigned_responder_id \<noteq> admin_id_str
              then filter_loop admin_id_str incidents filtered
              else filter_loop admin_id_str incidents (filtered @ [incident])))"

definition filter_incidents_for_admin :: "row list \<Rightarrow> pyval \<Rightarrow> string + row list" where
  "filter_incidents_for_admin incidents admin_id =
     (if \<not> truthy admin_id then Inr incidents
      else filter_loop (py_str admin_id) incidents [])"

section \<open>Requests and responses\<close>

text \<open>
  A handler reads the form and the headers of the request and the session, and answers
  with a redirect or a JSON body with its HTTP status; on the way it may flash messages.
\<close>

record request =
  form :: "string \<rightharpoonup> string"
  headers :: "string \<rightharpoonup> string"

datatype json = JNull | JBool bool | JText string | JDict row | JRows "row list"

datatype response = Redirect string | Json_response "(string \<times> json) list" nat

datatype flashed = Text string | Summary row

type_synonym flashes = "(flashed \<times> string) list"

definition wants_json :: "request \<Rightarrow> bool" where
  "wants_json req =
     (headers req ''X-Requested-With'' = Some ''XMLHttpRequest''
      \<or> contains (case headers req ''Accept'' of None \<Rightarrow> [] | Some a \<Rightarrow> a) ''application/json'')"

text \<open>\<open>session[key]\<close>: a missing key raises \<open>KeyError\<close>, whose text is the quoted key.\<close>

definition subscript :: "row \<Rightarrow> string \<Rightarrow> string + pyval" where
  "subscript r k = (case r k of None \<Rightarrow> Inl ([CHR 0x27] @ k @ [CHR 0x27]) | Some v \<Rightarrow> Inr v)"

text \<open>The two shapes of a refusal: a JSON error for a script, a flashed error and the dashboard otherwise.\<close>

definition refuse :: "bool \<Rightarrow> string \<Rightarrow> nat \<Rightarrow> response \<times> flashes" where
  "refuse as_json message status =
     (if as_json then (Json_response [(''success'', JBool False), (''error'', JText message)] status, [])
      else (Redirect ''dashboard'', [(Text message, ''error'')]))"

definition truthy_text :: "string option \<Rightarrow> bool" where
  "truthy_text e = (case e of None \<Rightarrow> False | Some m \<Rightarrow> m \<noteq> [])"

definition json_of_text :: "string option \<Rightarrow> json" where
  "json_of_text e = (case e of None \<Rightarrow> JNull | Some m \<Rightarrow> JText m)"

section \<open>Incident status update routes\<close>

text \<open>
  The body of the \<open>try\<close> block of \<open>mark_resolved\<close>: \<open>Inl e\<close> is an exception raised in the
  block, which the handler catches.
\<close>

definition mark_resolved_try ::
  "(incident_details \<Rightarrow> string + assembled) \<Rightarrow> clock \<Rightarrow> row \<Rightarrow> bool \<Rightarrow> string \<Rightarrow> string \<Rightarrow> store
     \<Rightarrow> (string + response \<times> flashes) \<times> store" where
  "mark_resolved_try assemble clk session as_json incident_id summary_text s =
     (case select ''alert_incidents'' (Columns [''icd_status'']) (Some (''icd_id'', PStr incident_id)) None s of
        (Inl e, s1) \<Rightarrow> (Inl e, s1)
      | (Inr current, s1) \<Rightarrow>
          (let old_status = (case current of [] \<Rightarrow> PStr ''Unknown'' | r # _ \<Rightarrow> get r ''icd_status'');
               now = iso_ph clk;
               update_data =
                 [''icd_status'' \<mapsto> PStr ''Resolved'',
                  ''resolved_timestamp'' \<mapsto> PStr now,
                  ''status_updated_at'' \<mapsto> PStr now,
                  ''status_updated_by'' \<mapsto> get session ''admin_id'']
           in case update_eq ''alert_incidents'' update_data ''icd_id'' (PStr incident_id) s1 of
                (Inl e, s2) \<Rightarrow> (Inl e, s2)
              | (Inr [], s2) \<Rightarrow> (Inr (refuse as_json ''Failed to update incident status'' 500), s2)
              | (Inr (_ # _), s2) \<Rightarrow>
                  (case subscript session ''admin_name'' of
                     Inl e \<Rightarrow> (Inl e, s2)
                   | Inr admin_name \<Rightarrow>
                       (let (logged, s3) = log_admin_activity clk (get session ''admin_id'') admin_name
                                             ''status_change'' (PStr incident_id) old_status (PStr ''Resolved'') s2;
                            (created, s4) = create_incident_resolution_report assemble clk (PStr incident_id)
                                              (get session ''admin_id'') (get session ''admin_name'') old_status
                                              (PStr summary_text) s3;
                            (summary_payload, storage_error) =
                              (case created of
                                 Inl summary_exception \<Rightarrow>
                                   (None, Some (''Failed to assemble resolution summary: '' @ summary_exception))
                               | Inr r \<Rightarrow> r);
                            incident_label = format_incident_label (PStr incident_id);
                            success_message = incident_label @ '' has been marked as resolved!''
                              @ (case summary_payload of
                                   None \<Rightarrow> []
                                 | Some p \<Rightarrow> if truthy (get p ''stored'') then '' Resolution summary archived.'' else [])
                        in case summary_payload of
                             None \<Rightarrow>
                               if truthy_text storage_error
                               then (if as_json
                                     then (Inr (Json_response
                                                 [(''success'', JBool True), (''message'', JText success_message),
                                                  (''summary'', JNull), (''warning'', json_of_text storage_error)] 200, []), s4)
                                     else (Inr (Redirect ''dashboard'',
                                                [(Text (incident_label @ '' resolved, but summary storage failed: ''
                                                        @ (case storage_error of None \<Rightarrow> [] | Some m \<Rightarrow> m)), ''error'')]), s4))
                               else if as_json
                               then (Inr (Json_response
                                           [(''success'', JBool True), (''message'', JText success_message),
                                            (''summary'', JNull), (''storage_warning'', json_of_text storage_error)] 200, []), s4)
                               else (Inr (Redirect ''dashboard'', [(Text success_message, ''success'')]), s4)
                           | Some p0 \<Rightarrow>
                               (let p1 = p0(''submitted_summary'' \<mapsto> PStr summary_text);
                                    p = (case storage_error of
                                           None \<Rightarrow> p1
                                         | Some m \<Rightarrow> if m \<noteq> [] then p1(''storage_warning'' \<mapsto> PStr m) else p1)
                                in if as_json
                                   then (Inr (Json_response
                                               [(''success'', JBool True), (''message'', JText success_message),
                                                (''summary'', JDict p), (''storage_warning'', json_of_text storage_error)] 200, []), s4)
                                   else (Inr (Redirect ''dashboard'',
                                              [(Text success_message, ''success''), (Summary p, ''resolution_summary'')]), s4))))))"

definition mark_resolved ::
  "(incident_details \<Rightarrow> string + assembled) \<Rightarrow> clock \<Rightarrow> row \<Rightarrow> request \<Rightarrow> store \<Rightarrow> (response \<times> flashes) \<times> store" where
  "mark_resolved assemble clk session req s =
     (if session ''admin_id'' = None then ((Redirect ''login'', []), s)
      else let summary_text = strip (case form req ''resolution_summary'' of None \<Rightarrow> [] | Some x \<Rightarrow> x);
               as_json = wants_json req
        in case form req ''incident_id'' of
             None \<Rightarrow> (refuse as_json ''Incident ID is required'' 400, s)
           | Some incident_id \<Rightarrow>
               if incident_id = [] then (refuse as_json ''Incident ID is required'' 400, s)
               else if summary_text = [] then (refuse as_json ''Resolution summary is required.'' 400, s)
               else (case can_admin_edit_incident (PStr incident_id) (get session ''admin_id'') s of
                       ((can_edit, edit_message), s0) \<Rightarrow>
                         if \<not> can_edit then (refuse as_json (''Permission denied: '' @ edit_message) 403, s0)
                         else (case mark_resolved_try assemble clk session as_json incident_id summary_text s0 of
                                 (Inr answer, s') \<Rightarrow> (answer, s')
                               | (Inl e, s') \<Rightarrow>
                                   (if as_json
                                    then (Json_response [(''success'', JBool False), (''error'', JText e)] 500, [])
                                    else (Redirect ''dashboard'',
                                          [(Text ''An error occurred while updating the incident'', ''error'')]), s'))))"

definition mark_cancelled_try :: "clock \<Rightarrow> row \<Rightarrow> string \<Rightarrow> store \<Rightarrow> (string + flashes) \<times> store" where
  "mark_cancelled_try clk session incident_id s =
     (case select ''alert_incidents'' (Columns [''icd_status'']) (Some (''icd_id'', PStr incident_id)) None s of
        (Inl e, s1) \<Rightarrow> (Inl e, s1)
      | (Inr current, s1) \<Rightarrow>
          (let old_status = (case current of [] \<Rightarrow> PStr ''Unknown'' | r # _ \<Rightarrow> get r ''icd_status'');
               now = iso_ph clk;
               update_data =
                 [''icd_status'' \<mapsto> PStr ''Cancelled'',
                  ''cancelled_timestamp'' \<mapsto> PStr now,
                  ''status_updated_at'' \<mapsto> PStr now,
                  ''status_updated_by'' \<mapsto> get session ''admin_id'']
           in case update_eq ''alert_incidents'' update_data ''icd_id'' (PStr incident_id) s1 of
                (Inl e, s2) \<Rightarrow> (Inl e, s2)
              | (Inr [], s2) \<Rightarrow> (Inr [(Text ''Failed to update incident status'', ''error'')], s2)
              | (Inr (_ # _), s2) \<Rightarrow>
                  (case subscript session ''admin_name'' of
                     Inl e \<Rightarrow> (Inl e, s2)
                   | Inr admin_name \<Rightarrow>
                       (let (logged, s3) = log_admin_activity clk (get session ''admin_id'') admin_name
                                             ''status_change'' (PStr incident_id) old_status (PStr ''Cancelled'') s2
                        in (Inr [(Text (''Incident ICD_9100'' @ incident_id @ '' has been cancelled!''), ''success'')], s3)))))"

definition mark_cancelled :: "clock \<Rightarrow> row \<Rightarrow> request \<Rightarrow> store \<Rightarrow> (response \<times> flashes) \<times> store" where
  "mark_cancelled clk session req s =
     (if session ''admin_id'' = None then ((Redirect ''login'', []), s)
      else case form req ''incident_id'' of
             None \<Rightarrow> ((Redirect ''dashboard'', [(Text ''Incident ID is required'', ''error'')]), s)
           | Some incident_id \<Rightarrow>
               if incident_id = [] then ((Redirect ''dashboard'', [(Text ''Incident ID is required'', ''error'')]), s)
               else (case can_admin_edit_incident (PStr incident_id) (get session ''admin_id'') s of
                       ((can_edit, edit_message), s0) \<Rightarrow>
                         if \<not> can_edit
                         then ((Redirect ''dashboard'', [(Text (''Permission denied: '' @ edit_message), ''error'')]), s0)
                         else (case mark_cancelled_try clk session incident_id s0 of
                                 (Inr fl, s') \<Rightarrow> ((Redirect ''dashboard'', fl), s')
                               | (Inl e, s') \<Rightarrow>
                                   ((Redirect ''dashboard'',
                                     [(Text ''An error occurred while updating the incident'', ''error'')]), s'))))"

section \<open>Chat messages\<close>

text \<open>
  The helpers of \<open>send_chat_message\<close>. Each of them catches the exceptions of its
  request.
\<close>

definition check_chat_table_exists :: "store \<Rightarrow> bool \<times> store" where
  "check_chat_table_exists s =
     (case select ''chat_messages'' (Columns [''id'']) None (Some 0) s of
        (Inr _, s') \<Rightarrow> (True, s')
      | (Inl error_msg, s') \<Rightarrow>
          (if contains error_msg ''PGRST205'' \<or> contains error_msg ''Could not find the table''
           then (False, s') else (True, s')))"

definition validate_incident_exists :: "pyval \<Rightarrow> store \<Rightarrow> bool \<times> store" where
  "validate_incident_exists incident_id s =
     (case select ''alert_incidents'' (Columns [''icd_id'']) (Some (''icd_id'', PStr (py_str incident_id))) (Some 1) s of
        (Inr result, s') \<Rightarrow> (result \<noteq> [], s')
      | (Inl e, s') \<Rightarrow> (False, s'))"

definition validate_student_exists :: "pyval \<Rightarrow> store \<Rightarrow> bool \<times> store" where
  "validate_student_exists user_id s =
     (case select ''accounts_student'' (Columns [''user_id'']) (Some (''user_id'', PStr (py_str user_id))) (Some 1) s of
        (Inr result, s') \<Rightarrow> (result \<noteq> [], s')
      | (Inl e, s') \<Rightarrow> (False, s'))"

definition validate_incident_student_relationship :: "pyval \<Rightarrow> pyval \<Rightarrow> store \<Rightarrow> bool \<times> store" where
  "validate_incident_student_relationship incident_id student_id s =
     (case select ''alert_incidents'' (Columns [''icd_id'', ''user_id'']) (Some (''icd_id'', PStr (py_str incident_id))) (Some 1) s of
        (Inl e, s') \<Rightarrow> (False, s')
      | (Inr [], s') \<Rightarrow> (False, s')
      | (Inr (incident # _), s') \<Rightarrow>
          (let incident_user_id = py_str (get_default incident ''user_id'' (PStr []));
               student_id_str = py_str student_id
           in if incident_user_id \<noteq> student_id_str then (False, s')
              else (case validate_student_exists student_id s' of
                      (False, s'') \<Rightarrow> (False, s'')
                    | (True, s'') \<Rightarrow> (True, s''))))"

definition get_incident_student_id :: "pyval \<Rightarrow> store \<Rightarrow> string option \<times> store" where
  "get_incident_student_id incident_id s =
     (case select ''alert_incidents'' (Columns [''user_id'']) (Some (''icd_id'', PStr (py_str incident_id))) (Some 1) s of
        (Inl e, s') \<Rightarrow> (None, s')
      | (Inr [], s') \<Rightarrow> (None, s')
      | (Inr (r # _), s') \<Rightarrow> (Some (py_str (get_default r ''user_id'' (PStr []))), s'))"

text \<open>
  The check of one party of a message: a student must exist and be the reporter of the
  incident; an admin is not checked.
\<close>

definition check_party :: "pyval \<Rightarrow> string \<Rightarrow> string \<Rightarrow> store \<Rightarrow> bool \<times> store" where
  "check_party party_id party_type incident_student_id s =
     (if party_type = ''student''
      then (case validate_student_exists party_id s of
              (False, s') \<Rightarrow> (False, s')
            | (True, s') \<Rightarrow> (py_str party_id = incident_student_id, s'))
      else (True, s))"

definition send_chat_message ::
  "clock \<Rightarrow> pyval \<Rightarrow> pyval \<Rightarrow> string \<Rightarrow> pyval \<Rightarrow> string \<Rightarrow> string \<Rightarrow> pyval \<Rightarrow> store \<Rightarrow> row option \<times> store" where
  "send_chat_message clk incident_id sender_id sender_type receiver_id receiver_type message image_url s =
     (case check_chat_table_exists s of
        (False, s1) \<Rightarrow> (None, s1)
      | (True, s1) \<Rightarrow>
          if \<not> truthy incident_id then (None, s1)
          else if \<not> truthy sender_id \<or> \<not> truthy receiver_id then (None, s1)
          else if (message = [] \<or> strip message = []) \<and> \<not> truthy image_url then (None, s1)
          else if sender_type \<notin> set [''admin'', ''student''] then (None, s1)
          else if receiver_type \<notin> set [''admin'', ''student''] then (None, s1)
          else (case validate_incident_exists incident_id s1 of
                  (False, s2) \<Rightarrow> (None, s2)
                | (True, s2) \<Rightarrow>
                    (case get_incident_student_id incident_id s2 of
                       (None, s3) \<Rightarrow> (None, s3)
                     | (Some incident_student_id, s3) \<Rightarrow>
                         if incident_student_id = [] then (None, s3)
                         else (case check_party sender_id sender_type incident_student_id s3 of
                                 (False, s4) \<Rightarrow> (None, s4)
                               | (True, s4) \<Rightarrow>
                                   (case check_party receiver_id receiver_type incident_student_id s4 of
                                      (False, s5) \<Rightarrow> (None, s5)
                                    | (True, s5) \<Rightarrow>
                                        (let student_id_to_validate =
                                               (if sender_type = ''student'' then sender_id else receiver_id);
                                             (related, s6) =
                                               (if sender_type = ''student'' \<or> receiver_type = ''student''
                                                then validate_incident_student_relationship incident_id student_id_to_validate s5
                                                else (True, s5))
                                         in if \<not> related then (None, s6)
                                            else (let message_data0 =
                                                        [''incident_id'' \<mapsto> PStr (py_str incident_id),
                                                         ''sender_id'' \<mapsto> PStr (py_str sender_id),
                                                         ''sender_type'' \<mapsto> PStr sender_type,
                                                         ''receiver_id'' \<mapsto> PStr (py_str receiver_id),
                                                         ''receiver_type'' \<mapsto> PStr receiver_type,
                                                         ''message'' \<mapsto> PStr (if message \<noteq> [] then strip message else []),
                                                         ''timestamp'' \<mapsto> PStr (iso_utc clk),
                                                         ''is_read'' \<mapsto> PBool False];
                                                      message_data =
                                                        (if truthy image_url
                                                         then message_data0(''image_url'' \<mapsto> PStr (py_str image_url))
                                                         else message_data0)
                                                  in case insert_row ''chat_messages'' message_data s6 of
                                                       (Inl e, s7) \<Rightarrow> (None, s7)
                                                     | (Inr result, s7) \<Rightarrow> (first_row result, s7))))))))"

section \<open>Taking charge of an incident\<close>

definition mark_pending_try :: "clock \<Rightarrow> row \<Rightarrow> string \<Rightarrow> store \<Rightarrow> (string + flashes) \<times> store" where
  "mark_pending_try clk session incident_id s =
     (case select ''alert_incidents'' (Columns [''icd_status'', ''user_id'']) (Some (''icd_id'', PStr incident_id)) None s of
        (Inl e, s1) \<Rightarrow> (Inl e, s1)
      | (Inr [], s1) \<Rightarrow> (Inr [(Text ''Incident not found'', ''error'')], s1)
      | (Inr (current # _), s1) \<Rightarrow>
          (let old_status = get current ''icd_status'';
               student_id = get current ''user_id'';
               now = iso_ph clk;
               update_data =
                 [''icd_status'' \<mapsto> PStr ''Pending'',
                  ''pending_timestamp'' \<mapsto> PStr now,
                  ''status_updated_at'' \<mapsto> PStr now,
                  ''status_updated_by'' \<mapsto> get session ''admin_id'',
                  ''assigned_responder_id'' \<mapsto> get session ''admin_id'']
           in case update_eq ''alert_incidents'' update_data ''icd_id'' (PStr incident_id) s1 of
                (Inl e, s2) \<Rightarrow> (Inl e, s2)
              | (Inr [], s2) \<Rightarrow> (Inr [(Text ''Failed to update incident status - no data returned'', ''error'')], s2)
              | (Inr (_ # _), s2) \<Rightarrow>
                  (case subscript session ''admin_name'' of
                     Inl e \<Rightarrow> (Inl e, s2)
                   | Inr admin_name \<Rightarrow>
                       (let (logged, s3) = log_admin_activity clk (get session ''admin_id'') admin_name
                                             ''status_change'' (PStr incident_id) old_status (PStr ''Pending'') s2;
                            (admin_fullname, s4) =
                              (case select ''accounts_admin'' (Columns [''admin_fullname''])
                                      (Some (''admin_id'', get session ''admin_id'')) (Some 1) s3 of
                                 (Inl e, s4) \<Rightarrow> (get_default session ''admin_name'' (PStr ''Admin''), s4)
                               | (Inr [], s4) \<Rightarrow> (get_default session ''admin_name'' (PStr ''Admin''), s4)
                               | (Inr (a # _), s4) \<Rightarrow>
                                   (if truthy (get a ''admin_fullname'') then get a ''admin_fullname''
                                    else get_default session ''admin_name'' (PStr ''Admin''), s4));
                            s5 = (if truthy student_id
                                  then snd (send_chat_message clk (PStr incident_id) (get session ''admin_id'') ''admin''
                                              student_id ''student''
                                              (''Hello, your alert has been received. Admin '' @ py_str admin_fullname
                                               @ '' has taken charge of your case and marked it as Pending. Please wait while we assist you.'')
                                              PNone s4)
                                  else s4)
                        in (Inr [(Text (''Incident ICD_9100'' @ incident_id @ '' has been set to pending!''), ''success'')], s5)))))"

definition mark_pending :: "clock \<Rightarrow> row \<Rightarrow> request \<Rightarrow> store \<Rightarrow> (response \<times> flashes) \<times> store" where
  "mark_pending clk session req s =
     (if session ''admin_id'' = None then ((Redirect ''login'', []), s)
      else case form req ''incident_id'' of
             None \<Rightarrow> ((Redirect ''dashboard'', [(Text ''Incident ID is required'', ''error'')]), s)
           | Some incident_id \<Rightarrow>
               if incident_id = [] then ((Redirect ''dashboard'', [(Text ''Incident ID is required'', ''error'')]), s)
               else (case can_admin_edit_incident (PStr incident_id) (get session ''admin_id'') s of
                       ((can_edit, edit_message), s0) \<Rightarrow>
                         if \<not> can_edit
                         then ((Redirect ''dashboard'', [(Text (''Permission denied: '' @ edit_message), ''error'')]), s0)
                         else (case mark_pending_try clk session incident_id s0 of
                                 (Inr fl, s') \<Rightarrow> ((Redirect ''dashboard'', fl), s')
                               | (Inl error_msg, s') \<Rightarrow>
                                   ((Redirect ''dashboard'',
                                     [(Text (if contains (lower error_msg) ''column'' \<or> contains (lower error_msg) ''does not exist''
                                             then ''Database schema error. Please contact administrator.''
                                             else ''An error occurred while updating the incident: '' @ take 100 error_msg),
                                       ''error'')]), s'))))"

section \<open>Dispatching a responder\<close>

text \<open>
  The first \<open>try\<close> block of \<open>dispatch_team\<close> looks the incident up and checks the
  permission: \<open>Inl\<close> is the answer of an early return, \<open>Inr\<close> the incident found. The
  second block updates the incident and logs.
\<close>

definition dispatch_team_check :: "row \<Rightarrow> string \<Rightarrow> string \<Rightarrow> store \<Rightarrow> (flashes + row) \<times> store" where
  "dispatch_team_check session incident_id responder_id s =
     (case select ''alert_incidents'' (Columns [''icd_status'', ''assigned_responder_id''])
             (Some (''icd_id'', PStr incident_id)) None s of
        (Inl e, s1) \<Rightarrow> (Inl [(Text (''Error checking permissions: '' @ e), ''error'')], s1)
      | (Inr [], s1) \<Rightarrow> (Inl [(Text ''Incident not found'', ''error'')], s1)
      | (Inr (incident # _), s1) \<Rightarrow>
          (let current_assigned = get incident ''assigned_responder_id'';
               status = get_default incident ''icd_status'' (PStr [])
           in if truthy current_assigned
                 \<and> py_str current_assigned \<noteq> py_str (get session ''admin_id'')
                 \<and> responder_id \<noteq> py_str (get session ''admin_id'')
              then (case can_admin_edit_incident (PStr incident_id) (get session ''admin_id'') s1 of
                      ((can_edit, edit_message), s2) \<Rightarrow>
                        if \<not> can_edit then (Inl [(Text (''Permission denied: '' @ edit_message), ''error'')], s2)
                        else (Inr incident, s2))
              else (Inr incident, s1)))"

definition dispatch_team_update :: "clock \<Rightarrow> row \<Rightarrow> string \<Rightarrow> string \<Rightarrow> row \<Rightarrow> store \<Rightarrow> flashes \<times> store" where
  "dispatch_team_update clk session incident_id responder_id incident s =
     (let old_status = get_default incident ''icd_status'' (PStr ''Unknown'');
          pending_timestamp = iso_ph clk
      in case update_eq ''alert_incidents''
                [''icd_status'' \<mapsto> PStr ''Pending'',
                 ''pending_timestamp'' \<mapsto> PStr pending_timestamp,
                 ''assigned_responder_id'' \<mapsto> PStr responder_id]
                ''icd_id'' (PStr incident_id) s of
           (Inl e, s1) \<Rightarrow> ([(Text (''Error assigning responder: '' @ e), ''error'')], s1)
         | (Inr [], s1) \<Rightarrow> ([(Text ''Error assigning responder'', ''error'')], s1)
         | (Inr (_ # _), s1) \<Rightarrow>
             (case subscript session ''admin_name'' of
                Inl e \<Rightarrow> ([(Text (''Error assigning responder: '' @ e), ''error'')], s1)
              | Inr admin_name \<Rightarrow>
                  (let (logged, s2) = log_admin_activity clk (get session ''admin_id'') admin_name
                                        ''dispatch_team'' (PStr incident_id) old_status (PStr ''Pending'') s1
                   in ([(Text ''Responder assigned and incident set to pending successfully!'', ''success'')], s2))))"

definition dispatch_team :: "clock \<Rightarrow> row \<Rightarrow> request \<Rightarrow> store \<Rightarrow> (response \<times> flashes) \<times> store" where
  "dispatch_team clk session req s =
     (if session ''admin_id'' = None then ((Redirect ''login'', []), s)
      else let incident_id = (case form req ''incident_id'' of None \<Rightarrow> [] | Some x \<Rightarrow> x);
               responder_id = (case form req ''responder_id'' of None \<Rightarrow> [] | Some x \<Rightarrow> x)
        in if incident_id = [] \<or> responder_id = []
           then ((Redirect ''dashboard'', [(Text ''Error: Missing incident ID or responder ID'', ''error'')]), s)
           else (case dispatch_team_check session incident_id responder_id s of
                   (Inl fl, s1) \<Rightarrow> ((Redirect ''dashboard'', fl), s1)
                 | (Inr incident, s1) \<Rightarrow>
                     (case dispatch_team_update clk session incident_id responder_id incident s1 of
                        (fl, s2) \<Rightarrow> ((Redirect ''dashboard'', fl), s2))))"

section \<open>Archiving\<close>

text \<open>
  \<open>archive_incident\<close>: the success flag and the message. Every exception is caught and
  returned as a failure with its text, except that of the deletion of the resolution
  reports, which is ignored.
\<close>

definition archive_incident :: "clock \<Rightarrow> pyval \<Rightarrow> pyval \<Rightarrow> pyval \<Rightarrow> store \<Rightarrow> (bool \<times> string) \<times> store" where
  "archive_incident clk incident_id admin_id reason s =
     (case select ''alert_incidents'' All_columns (Some (''icd_id'', incident_id)) None s of
        (Inl e, s1) \<Rightarrow> ((False, e), s1)
      | (Inr [], s1) \<Rightarrow> ((False, ''Incident not found''), s1)
      | (Inr (incident # _), s1) \<Rightarrow>
          (case subscript incident ''icd_id'' of
             Inl e \<Rightarrow> ((False, e), s1)
           | Inr original_icd_id \<Rightarrow>
               (case select ''incident_archive'' (Columns [''icd_id'']) (Some (''icd_id'', original_icd_id)) None s1 of
                  (Inl e, s2) \<Rightarrow> ((False, e), s2)
                | (Inr existing_archive, s2) \<Rightarrow>
                    (let archive_icd_id =
                           (if existing_archive \<noteq> []
                            then PStr (py_str original_icd_id @ ''_ARCHIVED_'' @ compact_ph clk)
                            else original_icd_id);
                         archived_at = iso_ph clk;
                         archive_data =
                           [''icd_id'' \<mapsto> archive_icd_id,
                            ''icd_timestamp'' \<mapsto> get incident ''icd_timestamp'',
                            ''resolved_timestamp'' \<mapsto> get incident ''resolved_timestamp'',
                            ''pending_timestamp'' \<mapsto> get incident ''pending_timestamp'',
                            ''cancelled_timestamp'' \<mapsto> get incident ''cancelled_timestamp'',
                            ''icd_status'' \<mapsto> get incident ''icd_status'',
                            ''icd_lat'' \<mapsto> get incident ''icd_lat'',
                            ''icd_lng'' \<mapsto> get incident ''icd_lng'',
                            ''assigned_responder_id'' \<mapsto> get incident ''assigned_responder_id'',
                            ''status_updated_at'' \<mapsto> get incident ''status_updated_at'',
                            ''status_updated_by'' \<mapsto> get incident ''status_updated_by'',
                            ''icd_category'' \<mapsto> get incident ''icd_category'',
                            ''icd_medical_type'' \<mapsto> get incident ''icd_medical_type'',
                            ''icd_security_type'' \<mapsto> get incident ''icd_security_type'',
                            ''icd_university_type'' \<mapsto> get incident ''icd_university_type'',
                            ''icd_description'' \<mapsto> get incident ''icd_description'',
                            ''icd_image'' \<mapsto> get incident ''icd_image'',
                            ''user_id'' \<mapsto> get incident ''user_id'',
                            ''archived_by'' \<mapsto> admin_id,
                            ''archive_reason'' \<mapsto> py_or reason (PStr ''Archived by administrator''),
                            ''archived_at'' \<mapsto> PStr archived_at]
                     in case insert_row ''incident_archive'' archive_data s2 of
                          (Inl e, s3) \<Rightarrow> ((False, e), s3)
                        | (Inr _, s3) \<Rightarrow>
                            (let s4 = snd (delete_eq ''incident_resolution_reports'' ''icd_id'' incident_id s3)
                             in case delete_eq ''alert_incidents'' ''icd_id'' incident_id s4 of
                                  (Inl e, s5) \<Rightarrow> ((False, e), s5)
                                | (Inr _, s5) \<Rightarrow>
                                    (let (logged, s6) = log_incident_change incident_id ''archived''
                                                          (get incident ''icd_status'') PNone admin_id reason s5
                                     in ((True, ''Incident archived successfully''), s6)))))))"

fun bulk_archive_incidents :: "clock \<Rightarrow> pyval list \<Rightarrow> pyval \<Rightarrow> pyval \<Rightarrow> store \<Rightarrow> row list \<times> store" where
  "bulk_archive_incidents clk [] admin_id reason s = ([], s)"
| "bulk_archive_incidents clk (incident_id # incident_ids) admin_id reason s =
     (case archive_incident clk incident_id admin_id reason s of
        ((success, message), s1) \<Rightarrow>
          (case bulk_archive_incidents clk incident_ids admin_id reason s1 of
             (results, s2) \<Rightarrow>
               ([''incident_id'' \<mapsto> incident_id, ''success'' \<mapsto> PBool success, ''message'' \<mapsto> PStr message] # results, s2)))"

section \<open>Bulk actions\<close>

text \<open>
  The JSON body of a bulk request, with the defaults of the handler already applied
  (\<open>incident_ids\<close> is empty and \<open>reason\<close> is the empty text when they are missing; \<open>action\<close>
  and \<open>new_status\<close> are \<open>None\<close> when they are missing).
\<close>

record bulk_request =
  action :: pyval
  incident_ids :: "pyval list"
  reason :: pyval
  new_status :: pyval

text \<open>The values that the bulk status update writes to an incident.\<close>

definition bulk_update_data :: "pyval \<Rightarrow> string \<Rightarrow> pyval \<Rightarrow> row" where
  "bulk_update_data status current_time admin_id =
     (let update_data0 =
            [''icd_status'' \<mapsto> status,
             ''status_updated_at'' \<mapsto> PStr current_time,
             ''status_updated_by'' \<mapsto> admin_id];
          update_data = update_data0(''resolved_timestamp'' \<mapsto> PNone, ''pending_timestamp'' \<mapsto> PNone,
                                     ''cancelled_timestamp'' \<mapsto> PNone)
      in if status = PStr ''Resolved'' then update_data(''resolved_timestamp'' \<mapsto> PStr current_time)
         else if status = PStr ''Pending'' then update_data(''pending_timestamp'' \<mapsto> PStr current_time)
         else if status = PStr ''Cancelled'' then update_data(''cancelled_timestamp'' \<mapsto> PStr current_time)
         else update_data)"

text \<open>One round of the loop over the selected incidents: the entry added to the results.\<close>

definition bulk_status_update_one :: "string \<Rightarrow> pyval \<Rightarrow> pyval \<Rightarrow> pyval \<Rightarrow> store \<Rightarrow> row \<times> store" where
  "bulk_status_update_one current_time admin_id status incident_id s =
     (case can_admin_edit_incident incident_id admin_id s of
        ((can_edit, edit_message), s1) \<Rightarrow>
          if \<not> can_edit
          then ([''incident_id'' \<mapsto> incident_id, ''success'' \<mapsto> PBool False,
                 ''message'' \<mapsto> PStr (''Permission denied: '' @ edit_message)], s1)
          else (case update_eq ''alert_incidents'' (bulk_update_data status current_time admin_id)
                       ''icd_id'' incident_id s1 of
                  (Inl e, s2) \<Rightarrow>
                    ([''incident_id'' \<mapsto> incident_id, ''success'' \<mapsto> PBool False, ''message'' \<mapsto> PStr e], s2)
                | (Inr _, s2) \<Rightarrow>
                    (let (logged, s3) = log_incident_change incident_id ''status_updated'' PNone status admin_id PNone s2
                     in ([''incident_id'' \<mapsto> incident_id, ''success'' \<mapsto> PBool True,
                          ''message'' \<mapsto> PStr ''Status updated successfully''], s3))))"

fun bulk_status_update :: "string \<Rightarrow> pyval \<Rightarrow> pyval \<Rightarrow> pyval list \<Rightarrow> store \<Rightarrow> row list \<times> store" where
  "bulk_status_update current_time admin_id status [] s = ([], s)"
| "bulk_status_update current_time admin_id status (incident_id # ids) s =
     (case bulk_status_update_one current_time admin_id status incident_id s of
        (result, s1) \<Rightarrow>
          (case bulk_status_update current_time admin_id status ids s1 of
             (results, s2) \<Rightarrow> (result # results, s2)))"

definition api_bulk_action :: "clock \<Rightarrow> row \<Rightarrow> bulk_request \<Rightarrow> store \<Rightarrow> response \<times> store" where
  "api_bulk_action clk session data s =
     (if session ''admin_id'' = None then (Json_response [(''error'', JText ''Unauthorized'')] 401, s)
      else if incident_ids data = []
      then (Json_response [(''success'', JBool False), (''message'', JText ''No incidents selected'')] 400, s)
      else if action data = PStr ''archive''
      then (case bulk_archive_incidents clk (incident_ids data) (get session ''admin_id'') (reason data) s of
              (results, s') \<Rightarrow>
                (Json_response [(''success'', JBool True), (''results'', JRows results),
                                (''message'', JText (''Processed '' @ str_nat (length results) @ '' incidents''))] 200, s'))
      else if action data = PStr ''status_update''
      then (if \<not> truthy (new_status data)
            then (Json_response [(''success'', JBool False), (''message'', JText ''New status required'')] 400, s)
            else (case bulk_status_update (iso_ph clk) (get session ''admin_id'') (new_status data) (incident_ids data) s of
                    (results, s') \<Rightarrow>
                      (Json_response [(''success'', JBool True), (''results'', JRows results),
                                      (''message'', JText (''Updated '' @ str_nat (length results) @ '' incidents''))] 200, s')))
      else (Json_response [(''success'', JBool False), (''message'', JText ''Unknown action'')] 400, s))"

section \<open>Timestamps\<close>

text \<open>
  A \<open>datetime\<close> is the reading of a wall clock, in seconds since the first instant that
  the type can hold (0001-01-01 00:00:00), with the offset of its zone from UTC in minutes,
  or without one (a naive value). The reference zone \<open>Asia/Manila\<close> is taken at its
  present offset, eight hours ahead of UTC.
\<close>

record datetime =
  wall :: int
  tzinfo :: "int option"

definition PHILIPPINES_TZ :: int where
  "PHILIPPINES_TZ = 480"

definition utc :: int where
  "utc = 0"

text \<open>The number of seconds from 0001-01-01 to the end of the year 9999.\<close>

definition datetime_span :: int where
  "datetime_span = 3652059 * 86400"

text \<open>
  \<open>dt.astimezone(tz)\<close> on an aware value: the same instant read on the clock of the
  zone \<open>tz\<close>; \<open>OverflowError\<close> when that reading is outside the range of the type.
\<close>

definition astimezone :: "int \<Rightarrow> int \<Rightarrow> int \<Rightarrow> string + datetime" where
  "astimezone w off tz =
     (let w' = w - 60 * off + 60 * tz
      in if 0 \<le> w' \<and> w' < datetime_span then Inr \<lparr>wall = w', tzinfo = Some tz\<rparr>
         else Inl ''date value out of range'')"

text \<open>The instant of an aware value, in seconds on the clock of UTC.\<close>

definition utc_seconds :: "datetime \<Rightarrow> int option" where
  "utc_seconds d = (case tzinfo d of None \<Rightarrow> None | Some off \<Rightarrow> Some (wall d - 60 * off))"

text \<open>A value handed to a parser: a \<open>datetime\<close> instance or any other value.\<close>

datatype stamp = Instant datetime | Plain pyval

text \<open>\<open>s.replace('Z', '+00:00')\<close> and \<open>s.endswith(p)\<close>.\<close>

definition replace_Z :: "string \<Rightarrow> string" where
  "replace_Z s = concat (map (\<lambda>c. if c = CHR ''Z'' then ''+00:00'' else [c]) s)"

definition endswith :: "string \<Rightarrow> string \<Rightarrow> bool" where
  "endswith s p = startswith (rev s) (rev p)"

text \<open>
  \<open>_parse_datetime\<close>, the shared normalizer. The library parser
  \<open>datetime.fromisoformat\<close> is a parameter: it returns the value read or raises
  (\<open>Inl\<close>).
\<close>

definition parse_datetime :: "(string \<Rightarrow> string + datetime) \<Rightarrow> stamp \<Rightarrow> datetime option" where
  "parse_datetime fromisoformat v =
     (case (case v of
              Instant d \<Rightarrow> Inr d
            | Plain p \<Rightarrow>
                if \<not> truthy p then Inl ''''
                else (let text0 = py_str p;
                          text = (if endswith text0 ''Z'' then replace_Z text0 else text0)
                      in fromisoformat text)) of
        Inl e \<Rightarrow> None
      | Inr dt_obj \<Rightarrow>
          (let off = (case tzinfo dt_obj of None \<Rightarrow> utc | Some off \<Rightarrow> off)
           in case astimezone (wall dt_obj) off PHILIPPINES_TZ of
                Inr d \<Rightarrow> Some d
              | Inl e \<Rightarrow> Some (dt_obj\<lparr>tzinfo := Some off\<rparr>)))"

text \<open>
  \<open>parse_timestamp\<close>, the parser nested in \<open>get_recent_activities\<close>. The second
  parameter is \<open>datetime.strptime\<close> with the format \<open>%Y-%m-%d %H:%M:%S\<close>.
  \<open>PHILIPPINES_TZ.localize\<close> attaches the zone to the reading as it is.
\<close>

definition parse_timestamp ::
  "(string \<Rightarrow> string + datetime) \<Rightarrow> (string \<Rightarrow> string + datetime) \<Rightarrow> stamp \<Rightarrow> datetime option" where
  "parse_timestamp fromisoformat strptime ts =
     (case (case ts of
              Instant d \<Rightarrow> Inr d
            | Plain p \<Rightarrow>
                if \<not> truthy p then Inl ''''
                else (case p of
                        PStr s \<Rightarrow>
                          if CHR ''T'' \<in> set s then fromisoformat (replace_Z s)
                          else strptime (take 19 s)
                      | _ \<Rightarrow> Inl ([CHR 0x27] @ type_name p @ [CHR 0x27] @ '' object has no attribute ''
                                    @ [CHR 0x27] @ ''tzinfo'' @ [CHR 0x27]))) of
        Inl e \<Rightarrow> None
      | Inr dt \<Rightarrow>
          (case tzinfo dt of
             None \<Rightarrow> Some (dt\<lparr>tzinfo := Some PHILIPPINES_TZ\<rparr>)
           | Some off \<Rightarrow>
               (case astimezone (wall dt) off PHILIPPINES_TZ of
                  Inr d \<Rightarrow> Some d
                | Inl e \<Rightarrow> None)))"

section \<open>Notions used in the statements\<close>

text \<open>The next request to the store is carried out: it does not raise.\<close>

definition request_ok :: "store \<Rightarrow> bool" where
  "request_ok s = (fst (execute s) = None)"

text \<open>The incidents with a given id, in the order of the table.\<close>

definition incident_rows :: "store \<Rightarrow> pyval \<Rightarrow> row list" where
  "incident_rows s incident_id = filter (col_eq ''icd_id'' incident_id) (tables s ''alert_incidents'')"

text \<open>The value of a text column: text or null.\<close>

definition is_text_or_null :: "pyval \<Rightarrow> bool" where
  "is_text_or_null v = (case v of PNone \<Rightarrow> True | PStr _ \<Rightarrow> True | _ \<Rightarrow> False)"

text \<open>
  An incident is hidden from an admin when it is Active or Pending and assigned to a
  responder other than this admin; ids are compared by their text.
\<close>

definition hidden_from :: "pyval \<Rightarrow> row \<Rightarrow> bool" where
  "hidden_from admin_id incident =
     (or_empty_strip (get incident ''icd_status'') \<in> {Inr ''Active'', Inr ''Pending''}
      \<and> truthy (get incident ''assigned_responder_id'')
      \<and> py_str (get incident ''assigned_responder_id'') \<noteq> py_str admin_id)"

subsection \<open>Sample data\<close>

definition pending_of_A :: row where
  "pending_of_A = [''icd_id'' \<mapsto> PStr ''1'', ''icd_status'' \<mapsto> PStr ''Pending'',
                   ''assigned_responder_id'' \<mapsto> PStr ''A'',
                   ''pending_timestamp'' \<mapsto> PStr ''2024-05-01T09:00:00+08:00'']"

definition active_of_B :: row where
  "active_of_B = [''icd_id'' \<mapsto> PStr ''2'', ''icd_status'' \<mapsto> PStr ''Active'',
                  ''assigned_responder_id'' \<mapsto> PStr ''B'']"

definition active_unassigned :: row where
  "active_unassigned = [''icd_id'' \<mapsto> PStr ''3'', ''icd_status'' \<mapsto> PStr ''Active'',
                        ''assigned_responder_id'' \<mapsto> PNone]"

definition resolved_of_A :: row where
  "resolved_of_A = [''icd_id'' \<mapsto> PStr ''4'', ''icd_status'' \<mapsto> PStr ''Resolved'',
                    ''assigned_responder_id'' \<mapsto> PStr ''A'',
                    ''resolved_timestamp'' \<mapsto> PStr ''2024-05-01T10:00:00+08:00'']"

definition sample_incidents :: "row list" where
  "sample_incidents = [pending_of_A, active_of_B, active_unassigned, resolved_of_A]"

definition sample_store :: store where
  "sample_store = \<lparr>configured = True,
                    tables = (\<lambda>t. if t = ''alert_incidents'' then sample_incidents else []),
                    faults = []\<rparr>"

subsection \<open>Sample resolution reports\<close>



definition report_with_id :: "string \<Rightarrow> row" where
  "report_with_id rid = [''resolved_id'' \<mapsto> PStr rid, ''created_at'' \<mapsto> PStr ''2024-05-02T10:00:00+08:00'']"

definition reports_store :: "row list \<Rightarrow> string option list \<Rightarrow> store" where
  "reports_store reports script =
     \<lparr>configured = True,
      tables = (\<lambda>t. if t = ''incident_resolution_reports'' then reports
                     else if t = ''alert_incidents'' then sample_incidents else []),
      faults = script\<rparr>"

subsection \<open>Sample timestamps\<close>

text \<open>
  What the library parser reads from two texts of the instant 2024-05-01 10:00:00 (a
  reading of 63850154400 seconds), without and with an offset; any other text is refused.
\<close>

definition sample_fromisoformat :: "string \<Rightarrow> string + datetime" where
  "sample_fromisoformat s =
     (if s = ''2024-05-01T10:00:00'' then Inr \<lparr>wall = 63850154400, tzinfo = None\<rparr>
      else if s = ''2024-05-01T10:00:00+00:00'' then Inr \<lparr>wall = 63850154400, tzinfo = Some 0\<rparr>
      else Inl (''Invalid isoformat string: '' @ s))"

definition sample_strptime :: "string \<Rightarrow> string + datetime" where
  "sample_strptime s =
     (if s = ''2024-05-01 10:00:00'' then Inr \<lparr>wall = 63850154400, tzinfo = None\<rparr>
      else Inl (''time data '' @ s @ '' does not match format''))"

subsection \<open>Sample requests\<close>

definition sample_clock :: clock where
  "sample_clock = \<lparr>iso_ph = ''2024-05-02T10:15:00+08:00'', compact_ph = ''20240502101500'',
                    iso_local = ''2024-05-02T02:15:00'', iso_utc = ''2024-05-02T02:15:00+00:00''\<rparr>"

definition session_of :: "string \<Rightarrow> row" where
  "session_of admin = [''admin_id'' \<mapsto> PStr admin, ''admin_name'' \<mapsto> PStr (''Admin '' @ admin)]"

definition form_request :: "(string \<times> string) list \<Rightarrow> bool \<Rightarrow> request" where
  "form_request entries as_json =
     \<lparr>form = map_of entries,
      headers = (if as_json then [''Accept'' \<mapsto> ''application/json''] else Map.empty)\<rparr>"


text \<open>The values of a column of the incidents, row by row.\<close>

definition incident_table :: "store \<Rightarrow> row list" where
  "incident_table s = tables s ''alert_incidents''"

definition incident_column :: "string \<Rightarrow> store \<Rightarrow> pyval option list" where
  "incident_column k s = map (\<lambda>r. r k) (incident_table s)"



definition dispatch_4 :: request where
  "dispatch_4 = form_request [(''incident_id'', ''4''), (''responder_id'', ''C'')] False"

definition cancel_3 :: request where
  "cancel_3 = form_request [(''incident_id'', ''3'')] False"

definition bulk_pending_3 :: bulk_request where
  "bulk_pending_3 = \<lparr>action = PStr ''status_update'', incident_ids = [PStr ''3''], reason = PStr [],
                      new_status = PStr ''Pending''\<rparr>"

text \<open>The sample store with a script of failures, and with incident 4 already in the archive.\<close>

definition failing_store :: "string option list \<Rightarrow> store" where
  "failing_store script = sample_store\<lparr>faults := script\<rparr>"

definition archive_store :: store where
  "archive_store =
     \<lparr>configured = True,
      tables = (\<lambda>t. if t = ''alert_incidents'' then sample_incidents
                     else if t = ''incident_archive''
                     then [[''icd_id'' \<mapsto> PStr ''4'', ''icd_status'' \<mapsto> PStr ''Cancelled'',
                            ''archived_by'' \<mapsto> PStr ''B'']]
                     else []),
      faults = []\<rparr>"

text \<open>The values of a column of a table, row by row.\<close>

definition table_column :: "string \<Rightarrow> string \<Rightarrow> store \<Rightarrow> pyval list" where
  "table_column t k s = map (\<lambda>r. get r k) (tables s t)"

text \<open>What an answer shows: the flashed texts with their categories, and the fields of a JSON body.\<close>

definition flash_texts :: "flashes \<Rightarrow> (string \<times> string) list" where
  "flash_texts fl = concat (map (\<lambda>(f, c). case f of Text m \<Rightarrow> [(m, c)] | Summary p \<Rightarrow> []) fl)"

fun http_status :: "response \<Rightarrow> nat option" where
  "http_status (Redirect target) = None"
| "http_status (Json_response body status) = Some status"

fun json_field :: "string \<Rightarrow> response \<Rightarrow> json" where
  "json_field k (Redirect target) = JNull"
| "json_field k (Json_response body status) = (case map_of body k of None \<Rightarrow> JNull | Some v \<Rightarrow> v)"

fun json_bool :: "json \<Rightarrow> bool option" where
  "json_bool (JBool b) = Some b"
| "json_bool v = None"

fun json_text :: "json \<Rightarrow> string option" where
  "json_text (JText m) = Some m"
| "json_text v = None"

fun json_dict :: "json \<Rightarrow> row" where
  "json_dict (JDict r) = r"
| "json_dict v = Map.empty"

subsection \<open>Storage failures\<close>

text \<open>
  A unique-constraint violation that names the resolved id, by the text of the exception:
  this is the failure after which the specification asks for one retry.
\<close>

definition unique_violation_naming_resolved_id :: "string \<Rightarrow> bool" where
  "unique_violation_naming_resolved_id e =
     (contains (lower e) ''duplicate key value violates unique constraint''
      \<and> contains (lower e) ''resolved_id'')"

text \<open>The next \<open>n\<close> requests to the store are carried out.\<close>

definition carried_out :: "nat \<Rightarrow> store \<Rightarrow> bool" where
  "carried_out n s = (configured s \<and> list_all (\<lambda>f. f = None) (take n (faults s)))"

text \<open>The store after a request that was carried out without a change of the tables.\<close>

definition advance :: "store \<Rightarrow> store" where
  "advance s = s\<lparr>faults := tl (faults s)\<rparr>"

text \<open>The rows a handler writes when it resolves an incident.\<close>

definition resolved_update :: "clock \<Rightarrow> row \<Rightarrow> row" where
  "resolved_update clk session =
     [''icd_status'' \<mapsto> PStr ''Resolved'',
      ''resolved_timestamp'' \<mapsto> PStr (iso_ph clk),
      ''status_updated_at'' \<mapsto> PStr (iso_ph clk),
      ''status_updated_by'' \<mapsto> get session ''admin_id'']"

definition not_null_failure :: string where
  "not_null_failure = ''null value in column resolved_id violates not-null constraint''"

definition unique_failure :: string where
  "unique_failure = ''duplicate key value violates unique constraint incident_resolution_reports_resolved_id_key''"

section \<open>Facts about text and the data store\<close>

lemma strip_status [simp]:
  "strip ''Resolved'' = ''Resolved''" "strip ''Cancelled'' = ''Cancelled''"
  "strip ''Active'' = ''Active''" "strip ''Pending'' = ''Pending''"
  by (simp_all add: strip_def py_isspace_def)

lemma tables_execute [simp]: "tables (snd (execute s)) = tables s"
  by (simp add: execute_def split: list.splits)

lemma select_ok:
  "request_ok s \<Longrightarrow> fst (select t cols (Some (c, v)) lim s)
     = Inr (limit_rows lim (map (select_columns cols) (filter (col_eq c v) (tables s t))))"
  by (auto simp: request_ok_def select_def execute_def split: if_splits list.splits option.splits prod.splits)

lemma get_project [simp]: "get (project cols r) k = (if k \<in> set cols then get r k else PNone)"
  by (simp add: get_def project_def)

lemma get_default_project [simp]: "get_default (project cols r) k d = (if k \<in> set cols then get r k else d)"
  by (simp add: get_default_def project_def)

lemma request_ok_sample_store: "request_ok sample_store"
  by (simp add: request_ok_def execute_def sample_store_def)

section \<open>Visibility and edit authorization\<close>

lemma permission_lookup:
  assumes "request_ok s" and "incident_rows s incident_id = incident # others"
  shows "\<exists>rest s'. select ''alert_incidents'' (Columns [''icd_status'', ''assigned_responder_id''])
            (Some (''icd_id'', incident_id)) None s
         = (Inr (project [''icd_status'', ''assigned_responder_id''] incident # rest), s')"
proof -
  obtain r s' where sel: "select ''alert_incidents'' (Columns [''icd_status'', ''assigned_responder_id''])
            (Some (''icd_id'', incident_id)) None s = (r, s')"
    by (cases "select ''alert_incidents'' (Columns [''icd_status'', ''assigned_responder_id''])
            (Some (''icd_id'', incident_id)) None s")
  have "r = Inr (project [''icd_status'', ''assigned_responder_id''] incident
                 # map (project [''icd_status'', ''assigned_responder_id'']) others)"
    using select_ok [OF assms(1), of "''alert_incidents''" "Columns [''icd_status'', ''assigned_responder_id'']"
        "''icd_id''" incident_id None] sel assms(2)
    by (simp add: incident_rows_def)
  with sel show ?thesis by blast
qed

text \<open>
  C1. When the lookup of an incident succeeds and the incident found is Resolved or
  Cancelled, then for every admin id \<open>can_admin_edit_incident\<close> returns \<open>False\<close> with the
  reason that the incident cannot be modified, and \<open>can_admin_view_incident\<close> returns
  \<open>True\<close> with the reason that it is viewable.
\<close>

theorem closed_incident_viewable_not_editable:
  assumes "request_ok s"
    and "incident_rows s incident_id = incident # others"
    and "get incident ''icd_status'' = PStr status"
    and "status = ''Resolved'' \<or> status = ''Cancelled''"
  shows "fst (can_admin_edit_incident incident_id admin_id s)
           = (False, ''Incident is '' @ status @ '' and cannot be modified'')
       \<and> fst (can_admin_view_incident incident_id admin_id s) = (True, ''Incident is viewable'')"
proof -
  from permission_lookup [OF assms(1,2)] obtain rest s' where
    sel: "select ''alert_incidents'' (Columns [''icd_status'', ''assigned_responder_id''])
            (Some (''icd_id'', incident_id)) None s
         = (Inr (project [''icd_status'', ''assigned_responder_id''] incident # rest), s')"
    by blast
  show ?thesis
    using assms(3,4)
    by (auto simp: can_admin_edit_incident_def can_admin_view_incident_def sel or_empty_strip_def)
qed

text \<open>
  The Resolved incident 4 of the sample store, resolved by admin A: A may view it and
  may not edit it.
\<close>

theorem closed_incident_viewable_not_editable_witness:
  "request_ok sample_store
   \<and> incident_rows sample_store (PStr ''4'') = [resolved_of_A]
   \<and> get resolved_of_A ''icd_status'' = PStr ''Resolved''
   \<and> fst (can_admin_edit_incident (PStr ''4'') (PStr ''A'') sample_store)
        = (False, ''Incident is Resolved and cannot be modified'')
   \<and> fst (can_admin_view_incident (PStr ''4'') (PStr ''A'') sample_store) = (True, ''Incident is viewable'')"
proof -
  have rows: "incident_rows sample_store (PStr ''4'') = [resolved_of_A]"
    by (simp add: incident_rows_def sample_store_def sample_incidents_def col_eq_def
        pending_of_A_def active_of_B_def active_unassigned_def resolved_of_A_def)
  have status: "get resolved_of_A ''icd_status'' = PStr ''Resolved''"
    by (simp add: get_def resolved_of_A_def)
  show ?thesis
    using closed_incident_viewable_not_editable [OF request_ok_sample_store rows status, of "PStr ''A''"]
      request_ok_sample_store rows status
    by simp
qed

lemma or_empty_strip_text:
  "is_text_or_null v \<Longrightarrow> \<exists>st. or_empty_strip v = Inr st"
  by (cases v) (simp_all add: is_text_or_null_def or_empty_strip_def)

lemma filter_loop_eq:
  "\<forall>i \<in> set incidents. is_text_or_null (get i ''icd_status'')
   \<Longrightarrow> filter_loop (py_str admin_id) incidents filtered
       = Inr (filtered @ filter (\<lambda>i. \<not> hidden_from admin_id i) incidents)"
proof (induction incidents arbitrary: filtered)
  case Nil
  then show ?case by simp
next
  case (Cons i incidents)
  from Cons.prems have t: "is_text_or_null (get i ''icd_status'')" by simp
  then obtain st where st: "or_empty_strip (get i ''icd_status'') = Inr st"
    using or_empty_strip_text by blast
  from Cons.prems have rest: "\<forall>i \<in> set incidents. is_text_or_null (get i ''icd_status'')" by simp
  show ?case
    using Cons.IH [OF rest] st by (auto simp: hidden_from_def Let_def)
qed

text \<open>
  C2. When the lookup of an incident succeeds and the incident found is Active or Pending:
  with no responder assigned, every admin may view and edit it; with a responder whose id
  is the acting admin's (ids are compared by their text), the admin may view and edit it;
  otherwise the admin may neither view nor edit it. For an admin id that is not false and
  incidents whose status is text or null, \<open>filter_incidents_for_admin\<close> returns the
  incidents in their order without exactly those that are Active or Pending and assigned
  to another responder. (The case of a false admin id is C10.)
\<close>

theorem open_incident_gated_by_assignment:
  assumes "request_ok s"
    and "incident_rows s incident_id = incident # others"
    and "get incident ''icd_status'' = PStr status"
    and "status = ''Active'' \<or> status = ''Pending''"
    and "assigned = get incident ''assigned_responder_id''"
  shows "(\<not> truthy assigned \<longrightarrow>
            fst (fst (can_admin_view_incident incident_id admin_id s))
          \<and> fst (fst (can_admin_edit_incident incident_id admin_id s)))
       \<and> (truthy assigned \<and> py_str assigned = py_str admin_id \<longrightarrow>
            fst (fst (can_admin_view_incident incident_id admin_id s))
          \<and> fst (fst (can_admin_edit_incident incident_id admin_id s)))
       \<and> (truthy assigned \<and> py_str assigned \<noteq> py_str admin_id \<longrightarrow>
            \<not> fst (fst (can_admin_view_incident incident_id admin_id s))
          \<and> \<not> fst (fst (can_admin_edit_incident incident_id admin_id s)))
       \<and> (truthy admin_id \<and> (\<forall>i \<in> set incidents. is_text_or_null (get i ''icd_status'')) \<longrightarrow>
            filter_incidents_for_admin incidents admin_id
              = Inr (filter (\<lambda>i. \<not> hidden_from admin_id i) incidents))"
proof -
  from permission_lookup [OF assms(1,2)] obtain rest s' where
    sel: "select ''alert_incidents'' (Columns [''icd_status'', ''assigned_responder_id''])
            (Some (''icd_id'', incident_id)) None s
         = (Inr (project [''icd_status'', ''assigned_responder_id''] incident # rest), s')"
    by blast
  have decisions:
    "fst (fst (can_admin_view_incident incident_id admin_id s))
       = (\<not> truthy assigned \<or> py_str assigned = py_str admin_id)"
    "fst (fst (can_admin_edit_incident incident_id admin_id s))
       = (\<not> truthy assigned \<or> py_str assigned = py_str admin_id)"
    using assms(3,4,5)
    by (auto simp: can_admin_edit_incident_def can_admin_view_incident_def sel or_empty_strip_def Let_def)
  have filtering: "filter_incidents_for_admin incidents admin_id
              = Inr (filter (\<lambda>i. \<not> hidden_from admin_id i) incidents)"
    if "truthy admin_id" "\<forall>i \<in> set incidents. is_text_or_null (get i ''icd_status'')"
    using that filter_loop_eq [of incidents admin_id "[]"]
    by (simp add: filter_incidents_for_admin_def)
  show ?thesis
    using decisions filtering by blast
qed

text \<open>
  Incident 1 of the sample store is Pending and assigned to A: admin B may neither view
  nor edit it, and the list filtered for B keeps the three other incidents.
\<close>

theorem open_incident_gated_by_assignment_witness:
  "request_ok sample_store
   \<and> incident_rows sample_store (PStr ''1'') = [pending_of_A]
   \<and> get pending_of_A ''icd_status'' = PStr ''Pending''
   \<and> truthy (get pending_of_A ''assigned_responder_id'')
   \<and> py_str (get pending_of_A ''assigned_responder_id'') \<noteq> py_str (PStr ''B'')
   \<and> \<not> fst (fst (can_admin_view_incident (PStr ''1'') (PStr ''B'') sample_store))
   \<and> \<not> fst (fst (can_admin_edit_incident (PStr ''1'') (PStr ''B'') sample_store))
   \<and> truthy (PStr ''B'')
   \<and> list_all (\<lambda>i. is_text_or_null (get i ''icd_status'')) sample_incidents
   \<and> filter_incidents_for_admin sample_incidents (PStr ''B'')
        = Inr [active_of_B, active_unassigned, resolved_of_A]"
proof -
  have rows: "incident_rows sample_store (PStr ''1'') = [pending_of_A]"
    by (simp add: incident_rows_def sample_store_def sample_incidents_def col_eq_def
        pending_of_A_def active_of_B_def active_unassigned_def resolved_of_A_def)
  have status: "get pending_of_A ''icd_status'' = PStr ''Pending''"
    by (simp add: get_def pending_of_A_def)
  have assigned: "get pending_of_A ''assigned_responder_id'' = PStr ''A''"
    by (simp add: get_def pending_of_A_def)
  have typed: "\<forall>i \<in> set sample_incidents. is_text_or_null (get i ''icd_status'')"
    by (simp add: sample_incidents_def is_text_or_null_def get_def
        pending_of_A_def active_of_B_def active_unassigned_def resolved_of_A_def)
  have hidden: "hidden_from (PStr ''B'') pending_of_A" "\<not> hidden_from (PStr ''B'') active_of_B"
    "\<not> hidden_from (PStr ''B'') active_unassigned" "\<not> hidden_from (PStr ''B'') resolved_of_A"
    by (simp_all add: hidden_from_def get_def or_empty_strip_def
        pending_of_A_def active_of_B_def active_unassigned_def resolved_of_A_def)
  show ?thesis
    using open_incident_gated_by_assignment [OF request_ok_sample_store rows status _ refl,
        of "PStr ''B''" sample_incidents]
      request_ok_sample_store rows status assigned typed hidden
    by (simp add: sample_incidents_def list_all_iff)
qed

text \<open>
  C10. When the admin id given to \<open>filter_incidents_for_admin\<close> is false (\<open>None\<close>, the
  empty text), the list is returned as it is: no incident is left out, also not an Active
  or Pending one that is assigned to a responder.
\<close>

theorem filter_without_admin_returns_all:
  "\<not> truthy admin_id \<Longrightarrow> filter_incidents_for_admin incidents admin_id = Inr incidents"
  by (simp add: filter_incidents_for_admin_def)

text \<open>
  The sample incidents are returned unchanged for \<open>None\<close> and for the empty text; they
  hold an incident that is hidden from admin B.
\<close>

theorem filter_without_admin_returns_all_witness:
  "\<not> truthy PNone \<and> \<not> truthy (PStr '''')
   \<and> filter_incidents_for_admin sample_incidents PNone = Inr sample_incidents
   \<and> filter_incidents_for_admin sample_incidents (PStr '''') = Inr sample_incidents
   \<and> pending_of_A \<in> set sample_incidents
   \<and> hidden_from (PStr ''B'') pending_of_A"
  using filter_without_admin_returns_all [of PNone sample_incidents]
    filter_without_admin_returns_all [of "PStr ''''" sample_incidents]
  by (simp add: sample_incidents_def hidden_from_def get_def or_empty_strip_def pending_of_A_def)

section \<open>Resolution identifiers\<close>






lemma format_one [simp]: "format_05d (Suc 0) = ''00001''"
  by code_simp

lemma select_columns_Columns [simp]: "select_columns (Columns cols) = project cols"
  by (rule ext) simp











lemma request_ok_reports_store [simp]: "request_ok (reports_store reports [])"
  by (simp add: request_ok_def execute_def reports_store_def)

lemma tables_reports_store [simp]: "tables (reports_store reports script) RESOLUTION_REPORTS_TABLE = reports"
  by (simp add: reports_store_def RESOLUTION_REPORTS_TABLE_def)

lemma get_report_with_id [simp]: "get (report_with_id rid) ''resolved_id'' = PStr rid"
  by (simp add: report_with_id_def get_def)


section \<open>Timestamp parsing\<close>

text \<open>Both parsers return \<open>None\<close> for an absent value and for a text that the library refuses.\<close>

lemma parse_datetime_absent: "\<not> truthy v \<Longrightarrow> parse_datetime fromisoformat (Plain v) = None"
  by (simp add: parse_datetime_def)

lemma parse_timestamp_absent: "\<not> truthy v \<Longrightarrow> parse_timestamp fromisoformat strptime (Plain v) = None"
  by (simp add: parse_timestamp_def)

lemma parse_datetime_unparseable:
  "truthy v \<Longrightarrow> fromisoformat (if endswith (py_str v) ''Z'' then replace_Z (py_str v) else py_str v) = Inl e
   \<Longrightarrow> parse_datetime fromisoformat (Plain v) = None"
  by (simp add: parse_datetime_def Let_def)

lemma parse_timestamp_unparseable:
  "s \<noteq> [] \<Longrightarrow> (if CHR ''T'' \<in> set s then fromisoformat (replace_Z s) else strptime (take 19 s)) = Inl e
   \<Longrightarrow> parse_timestamp fromisoformat strptime (Plain (PStr s)) = None"
  by (simp add: parse_timestamp_def split: if_splits)

text \<open>
  A naive value: the shared normalizer takes its reading as UTC, the parser of the
  activity feed takes the same reading as the time of the Philippine zone, eight hours
  earlier.
\<close>

lemma parse_datetime_naive_is_utc:
  "0 \<le> w + 28800 \<Longrightarrow> w + 28800 < datetime_span
   \<Longrightarrow> map_option utc_seconds (parse_datetime fromisoformat (Instant \<lparr>wall = w, tzinfo = None\<rparr>)) = Some (Some w)"
  by (simp add: parse_datetime_def astimezone_def utc_def PHILIPPINES_TZ_def utc_seconds_def Let_def)

lemma parse_timestamp_naive_is_local:
  "map_option utc_seconds (parse_timestamp fromisoformat strptime (Instant \<lparr>wall = w, tzinfo = None\<rparr>))
     = Some (Some (w - 28800))"
  by (simp add: parse_timestamp_def PHILIPPINES_TZ_def utc_seconds_def)

lemma parse_timestamp_naive_text_is_local:
  "CHR ''T'' \<in> set s \<Longrightarrow> fromisoformat (replace_Z s) = Inr \<lparr>wall = w, tzinfo = None\<rparr>
   \<Longrightarrow> parse_timestamp fromisoformat strptime (Plain (PStr s)) = Some \<lparr>wall = w, tzinfo = Some PHILIPPINES_TZ\<rparr>"
  by (auto simp: parse_timestamp_def)

text \<open>
  C5 (the code departs from the claim). The text \<open>2024-05-01T10:00:00\<close> has no
  offset. The parser of the activity feed returns 10:00 on the Philippine clock, which
  is 02:00 UTC; the shared normalizer returns 18:00 on the Philippine clock, which is
  10:00 UTC, as the feed's parser does for the same text with the suffix \<open>Z\<close>. The
  feed's parser does the same with a text in the format with a space.
\<close>

theorem feed_parser_reads_naive_text_as_local_time:
  "parse_timestamp sample_fromisoformat sample_strptime (Plain (PStr ''2024-05-01T10:00:00''))
     = Some \<lparr>wall = 63850154400, tzinfo = Some 480\<rparr>
 \<and> parse_datetime sample_fromisoformat (Plain (PStr ''2024-05-01T10:00:00''))
     = Some \<lparr>wall = 63850154400 + 28800, tzinfo = Some 480\<rparr>
 \<and> parse_timestamp sample_fromisoformat sample_strptime (Plain (PStr ''2024-05-01T10:00:00Z''))
     = Some \<lparr>wall = 63850154400 + 28800, tzinfo = Some 480\<rparr>
 \<and> parse_timestamp sample_fromisoformat sample_strptime (Plain (PStr ''2024-05-01 10:00:00''))
     = Some \<lparr>wall = 63850154400, tzinfo = Some 480\<rparr>"
  by (simp add: parse_timestamp_def parse_datetime_def sample_fromisoformat_def sample_strptime_def
      replace_Z_def endswith_def astimezone_def utc_def PHILIPPINES_TZ_def datetime_span_def Let_def)

section \<open>What the operations leave unchanged\<close>

text \<open>
  Requests to the store change only the table they write to; the helpers and handlers
  below change the incidents only through their one update.
\<close>

lemma execute_tables: "execute s = (r, s') \<Longrightarrow> tables s' = tables s"
  by (auto simp: execute_def split: if_splits list.splits)

lemma select_tables: "select t cols flt lim s = (r, s') \<Longrightarrow> tables s' = tables s"
  by (auto simp: select_def split: prod.splits option.splits dest: execute_tables)

lemma select_latest_tables: "select_latest t cols n s = (r, s') \<Longrightarrow> tables s' = tables s"
  by (auto simp: select_latest_def split: prod.splits option.splits dest: execute_tables)

lemma insert_row_tables: "insert_row t r s = (x, s') \<Longrightarrow> t' \<noteq> t \<Longrightarrow> tables s' t' = tables s t'"
  by (auto simp: insert_row_def split: prod.splits option.splits dest: execute_tables)

lemma delete_eq_tables: "delete_eq t c v s = (x, s') \<Longrightarrow> t' \<noteq> t \<Longrightarrow> tables s' t' = tables s t'"
  by (auto simp: delete_eq_def split: prod.splits option.splits dest: execute_tables)

lemma update_eq_tables: "update_eq t u c v s = (x, s') \<Longrightarrow> t' \<noteq> t \<Longrightarrow> tables s' t' = tables s t'"
  by (auto simp: update_eq_def split: prod.splits option.splits dest: execute_tables)


lemma insert_row_incidents: "insert_row t r s = (x, s') \<Longrightarrow> t \<noteq> ''alert_incidents'' \<Longrightarrow> incident_table s' = incident_table s"
  unfolding incident_table_def by (rule insert_row_tables) auto

lemma select_incidents: "select t cols flt lim s = (r, s') \<Longrightarrow> incident_table s' = incident_table s"
  by (simp add: incident_table_def select_tables)

lemma select_latest_incidents: "select_latest t cols n s = (r, s') \<Longrightarrow> incident_table s' = incident_table s"
  by (simp add: incident_table_def select_latest_tables)

lemma can_admin_edit_incident_tables: "can_admin_edit_incident i a s = (r, s') \<Longrightarrow> tables s' = tables s"
  by (auto simp: can_admin_edit_incident_def Let_def split: prod.splits sum.splits list.splits if_splits dest: select_tables)


lemma log_incident_change_incidents: "log_incident_change i t old new a why s = (r, s') \<Longrightarrow> incident_table s' = incident_table s"
  by (auto simp: log_incident_change_def split: prod.splits sum.splits dest: insert_row_incidents)







lemma incident_column_cong: "incident_table s' = incident_table s \<Longrightarrow> incident_column k s' = incident_column k s"
  by (simp add: incident_column_def)


lemmas log_incident_change_column = log_incident_change_incidents [THEN incident_column_cong]




















section \<open>Status timestamps\<close>



section \<open>Transitions out of Resolved and Cancelled\<close>

text \<open>
  An action that is denied by \<open>can_admin_edit_incident\<close> leaves the incidents as they
  are: this holds for \<open>mark_resolved\<close>, \<open>mark_pending\<close>, \<open>mark_cancelled\<close> and for a round of
  the bulk status update, and the edit of a Resolved or Cancelled incident is denied.
\<close>

lemma closed_incident_edit_denied:
  assumes "request_ok s"
    and "incident_rows s incident_id = incident # others"
    and "get incident ''icd_status'' = PStr ''Resolved'' \<or> get incident ''icd_status'' = PStr ''Cancelled''"
  shows "\<not> fst (fst (can_admin_edit_incident incident_id admin_id s))"
proof -
  from permission_lookup [OF assms(1,2)] obtain rest s' where
    sel: "select ''alert_incidents'' (Columns [''icd_status'', ''assigned_responder_id''])
            (Some (''icd_id'', incident_id)) None s
         = (Inr (project [''icd_status'', ''assigned_responder_id''] incident # rest), s')"
    by blast
  show ?thesis
    using assms(3) by (auto simp: can_admin_edit_incident_def sel)
qed


lemma can_admin_edit_incident_table:
  "incident_table (snd (can_admin_edit_incident i a s)) = incident_table s"
  by (cases "can_admin_edit_incident i a s")
     (auto simp: incident_table_def dest: can_admin_edit_incident_tables)

lemma denied_mark_resolved:
  assumes "\<not> fst (fst (can_admin_edit_incident (PStr i) (get session ''admin_id'') s))"
    and "form req ''incident_id'' = Some i"
  shows "incident_table (snd (mark_resolved assemble clk session req s)) = incident_table s"
  using assms can_admin_edit_incident_table [of "PStr i" "get session ''admin_id''" s]
  by (auto simp: mark_resolved_def Let_def split: prod.splits)

lemma denied_mark_pending:
  assumes "\<not> fst (fst (can_admin_edit_incident (PStr i) (get session ''admin_id'') s))"
    and "form req ''incident_id'' = Some i"
  shows "incident_table (snd (mark_pending clk session req s)) = incident_table s"
  using assms can_admin_edit_incident_table [of "PStr i" "get session ''admin_id''" s]
  by (auto simp: mark_pending_def Let_def split: prod.splits)

lemma denied_mark_cancelled:
  assumes "\<not> fst (fst (can_admin_edit_incident (PStr i) (get session ''admin_id'') s))"
    and "form req ''incident_id'' = Some i"
  shows "incident_table (snd (mark_cancelled clk session req s)) = incident_table s"
  using assms can_admin_edit_incident_table [of "PStr i" "get session ''admin_id''" s]
  by (auto simp: mark_cancelled_def Let_def split: prod.splits)

lemma denied_bulk_status_update_one:
  assumes "\<not> fst (fst (can_admin_edit_incident i a s))"
  shows "incident_table (snd (bulk_status_update_one now a status i s)) = incident_table s"
  using assms can_admin_edit_incident_table [of i a s]
  by (auto simp: bulk_status_update_one_def split: prod.splits)

text \<open>
  C3 (the code departs from the claim). Incident 4 of the sample store is Resolved and
  assigned to admin A, who may not edit it. When A dispatches responder C to it,
  \<open>dispatch_team\<close> does not ask \<open>can_admin_edit_incident\<close> (the incident is assigned to the
  acting admin) and does not look at the status: the incident becomes Pending and is
  assigned to C, and the answer is the message of success.
\<close>

theorem dispatch_team_reopens_closed_incident:
  "table_column ''alert_incidents'' ''icd_status'' sample_store
     = [PStr ''Pending'', PStr ''Active'', PStr ''Active'', PStr ''Resolved'']
 \<and> flash_texts (snd (fst (dispatch_team sample_clock (session_of ''A'') dispatch_4 sample_store)))
     = [(''Responder assigned and incident set to pending successfully!'', ''success'')]
 \<and> table_column ''alert_incidents'' ''icd_status''
       (snd (dispatch_team sample_clock (session_of ''A'') dispatch_4 sample_store))
     = [PStr ''Pending'', PStr ''Active'', PStr ''Active'', PStr ''Pending'']
 \<and> table_column ''alert_incidents'' ''assigned_responder_id''
       (snd (dispatch_team sample_clock (session_of ''A'') dispatch_4 sample_store))
     = [PStr ''A'', PStr ''B'', PNone, PStr ''C'']
 \<and> fst (fst (can_admin_edit_incident (PStr ''4'') (PStr ''A'') sample_store)) = False"
  by code_simp

section \<open>Audit entries of the transitions\<close>

text \<open>
  C4 (the code departs from the claim). Admin B sets the Active incident 3 to Pending by
  a bulk status update: the entry added to the audit trail has the new status and the
  admin, and no old status. The single actions log the old status: \<open>mark_cancelled\<close> on
  the same incident logs Active, Cancelled and B. When its log request fails, no entry is
  written, the incident is Cancelled all the same and the answer is the message of
  success.
\<close>

theorem bulk_status_update_logs_no_old_status:
  "table_column ''alert_incidents'' ''icd_status'' sample_store
     = [PStr ''Pending'', PStr ''Active'', PStr ''Active'', PStr ''Resolved'']
 \<and> table_column ''alert_incidents'' ''icd_status''
       (snd (api_bulk_action sample_clock (session_of ''B'') bulk_pending_3 sample_store))
     = [PStr ''Pending'', PStr ''Active'', PStr ''Pending'', PStr ''Resolved'']
 \<and> map (\<lambda>r. (get r ''icd_id'', get r ''old_status'', get r ''new_status'', get r ''changed_by''))
       (tables (snd (api_bulk_action sample_clock (session_of ''B'') bulk_pending_3 sample_store)) ''incident_audit_trail'')
     = [(PStr ''3'', PNone, PStr ''Pending'', PStr ''B'')]
 \<and> map (\<lambda>r. (get r ''incident_id'', get r ''old_status'', get r ''new_status'', get r ''admin_id''))
       (tables (snd (mark_cancelled sample_clock (session_of ''B'') cancel_3 sample_store)) ''admin_activity_logs'')
     = [(PStr ''3'', PStr ''Active'', PStr ''Cancelled'', PStr ''B'')]
 \<and> table_column ''admin_activity_logs'' ''incident_id''
       (snd (mark_cancelled sample_clock (session_of ''B'') cancel_3
               (failing_store [None, None, None, Some ''connection reset''])))
     = []
 \<and> table_column ''alert_incidents'' ''icd_status''
       (snd (mark_cancelled sample_clock (session_of ''B'') cancel_3
               (failing_store [None, None, None, Some ''connection reset''])))
     = [PStr ''Pending'', PStr ''Active'', PStr ''Cancelled'', PStr ''Resolved'']
 \<and> flash_texts (snd (fst (mark_cancelled sample_clock (session_of ''B'') cancel_3
            (failing_store [None, None, None, Some ''connection reset'']))))
     = [(''Incident ICD_91003 has been cancelled!'', ''success'')]"
  by code_simp

section \<open>Archiving an incident whose id is in the archive\<close>

text \<open>
  C9 (the code departs from the claim). Incident 4 is archived while the archive holds
  an incident 4: the copy is stored under the id \<open>4_ARCHIVED_20240502101500\<close> and the
  live incident is deleted, and the message returned is the one returned for incident
  3, whose id is not in the archive: it does not tell that the id has changed.
\<close>

theorem archive_message_does_not_tell_new_id:
  "fst (archive_incident sample_clock (PStr ''4'') (PStr ''A'') PNone archive_store)
     = (True, ''Incident archived successfully'')
 \<and> table_column ''incident_archive'' ''icd_id''
       (snd (archive_incident sample_clock (PStr ''4'') (PStr ''A'') PNone archive_store))
     = [PStr ''4'', PStr ''4_ARCHIVED_20240502101500'']
 \<and> table_column ''alert_incidents'' ''icd_id''
       (snd (archive_incident sample_clock (PStr ''4'') (PStr ''A'') PNone archive_store))
     = [PStr ''1'', PStr ''2'', PStr ''3'']
 \<and> fst (archive_incident sample_clock (PStr ''3'') (PStr ''A'') PNone archive_store)
     = (True, ''Incident archived successfully'')
 \<and> table_column ''incident_archive'' ''icd_id''
       (snd (archive_incident sample_clock (PStr ''3'') (PStr ''A'') PNone archive_store))
     = [PStr ''4'', PStr ''3'']"
  by code_simp

end
